theory Spec2Isabelle
  imports Main "HOL-Library.Word"
begin

unbundle bit_operations_syntax

section \<open>Post-link outlining: data model\<close>

text \<open>
  The pass lives in \<^verbatim>\<open>PostLinkOutlining.cpp\<close>. Its instructions are LLVM \<^verbatim>\<open>MCInst\<close>
  values: an opcode and a list of operands. An operand is a register, an immediate, an
  expression or a single-precision float immediate. Register numbers and opcodes are
  \<^verbatim>\<open>unsigned\<close> (32 bit), immediates are \<^verbatim>\<open>int64_t\<close>. An expression operand holds a
  pointer to an expression object; the model keeps the address, so that pointer equality
  is equality of addresses.
\<close>

type_synonym reg = "32 word"
type_synonym opc = "32 word"
type_synonym symbol = string

datatype operand =
    Reg reg
  | Imm "64 word"
  | Expr nat
  | SFPImm "32 word"

record inst =
  opcode :: opc
  operands :: "operand list"

fun isReg :: "operand \<Rightarrow> bool" where
  "isReg (Reg r) = True"
| "isReg x = False"

fun isImm :: "operand \<Rightarrow> bool" where
  "isImm (Imm v) = True"
| "isImm x = False"

fun isExpr :: "operand \<Rightarrow> bool" where
  "isExpr (Expr e) = True"
| "isExpr x = False"

fun isSFPImm :: "operand \<Rightarrow> bool" where
  "isSFPImm (SFPImm f) = True"
| "isSFPImm x = False"

subsection \<open>Opcode names\<close>

text \<open>
  The pass recognises several instruction classes by the text of the opcode name
  (\<^verbatim>\<open>StringRef::lower\<close>, \<^verbatim>\<open>std::string::find\<close>). \<open>starts_with s p\<close> is
  \<^verbatim>\<open>s.find(p) == 0\<close> and \<open>str_contains s p\<close> is \<^verbatim>\<open>s.find(p) != npos\<close>.
\<close>

definition lower_char :: "char \<Rightarrow> char" where
  "lower_char c =
     (let n = (of_char c :: nat) in if 65 \<le> n \<and> n \<le> 90 then char_of (n + 32) else c)"

definition lower :: "string \<Rightarrow> string" where
  "lower s = map lower_char s"

fun starts_with :: "string \<Rightarrow> string \<Rightarrow> bool" where
  "starts_with s [] = True"
| "starts_with [] (p # ps) = False"
| "starts_with (c # cs) (p # ps) = (c = p \<and> starts_with cs ps)"

fun str_contains :: "string \<Rightarrow> string \<Rightarrow> bool" where
  "str_contains [] p = (p = [])"
| "str_contains (c # cs) p = (starts_with (c # cs) p \<or> str_contains cs p)"

definition equals_insensitive :: "string \<Rightarrow> string \<Rightarrow> bool" where
  "equals_insensitive a b = (lower a = lower b)"

subsection \<open>The host\<close>

text \<open>
  The binary rewriter that hosts the pass (instruction analysis \<^verbatim>\<open>MIA\<close>, the builder
  \<^verbatim>\<open>MIB\<close>, the instruction descriptors \<^verbatim>\<open>MII\<close>, register information \<^verbatim>\<open>MRI\<close>, the
  instruction printer) is not part of the pass. Every query the pass makes of it is a
  field of the record \<open>host\<close>, so that each result below holds for every host.
  The last field stands for the C++ library: \<^verbatim>\<open>std::hash<float>\<close> applied to the
  float immediate of an operand.
\<close>

record host =
  isAArch64 :: bool
  MIB_isPseudo :: "inst \<Rightarrow> bool"
  MIB_isCFI :: "inst \<Rightarrow> bool"
  MIB_isReturn :: "inst \<Rightarrow> bool"
  MIA_isReturn :: "inst \<Rightarrow> bool"
  MIB_isCall :: "inst \<Rightarrow> bool"
  MIA_isCall :: "inst \<Rightarrow> bool"
  MIB_isIndirectCall :: "inst \<Rightarrow> bool"
  MIB_isTailCall :: "inst \<Rightarrow> bool"
  MIA_isBranch :: "inst \<Rightarrow> bool"
  MIB_isUnconditionalBranch :: "inst \<Rightarrow> bool"
  MIA_isTerminator :: "inst \<Rightarrow> bool"
  MIB_isPush :: "inst \<Rightarrow> bool"
  MIB_isPop :: "inst \<Rightarrow> bool"
  mayLoad :: "opc \<Rightarrow> bool"
  mayStore :: "opc \<Rightarrow> bool"
  getNumDefs :: "opc \<Rightarrow> nat"
  getOpcodeName :: "opc \<Rightarrow> string"
  getStackPointer :: reg
  getFramePointer :: reg
  isSubRegisterEq :: "reg \<Rightarrow> reg \<Rightarrow> bool"
  regNames :: "string list"
  exprSymbol :: "nat \<Rightarrow> symbol option"
  createSymbolRefExpr :: "symbol \<Rightarrow> nat"
  createCall :: "symbol \<Rightarrow> inst"
  createUncondBranch :: "symbol \<Rightarrow> inst"
  createReturn :: inst
  createPushRegisters :: "reg \<Rightarrow> reg \<Rightarrow> inst"
  createPopRegisters :: "reg \<Rightarrow> reg \<Rightarrow> inst"
  hashSFPImm :: "32 word \<Rightarrow> 64 word"

text \<open>\<^verbatim>\<open>getLinkRegister\<close>: 0 off AArch64, else the first register named x30 or lr
  (narrowed to the 16-bit \<^verbatim>\<open>MCPhysReg\<close>), else 30.\<close>

fun findLinkRegister :: "string list \<Rightarrow> nat \<Rightarrow> nat option" where
  "findLinkRegister [] i = None"
| "findLinkRegister (n # ns) i =
     (if equals_insensitive n ''x30'' \<or> equals_insensitive n ''lr'' then Some i
      else findLinkRegister ns (Suc i))"

definition getLinkRegister :: "host \<Rightarrow> reg" where
  "getLinkRegister BC =
     (if \<not> isAArch64 BC then 0
      else case findLinkRegister (regNames BC) 0 of
             Some i \<Rightarrow> ucast (word_of_nat i :: 16 word)
           | None \<Rightarrow> 30)"

section \<open>The instruction predicate library\<close>

text \<open>A conditional branch, as the pass tests it everywhere:
  \<^verbatim>\<open>MIA->isBranch(I) && !MIB->isUnconditionalBranch(I)\<close>.\<close>

definition isCondBranch :: "host \<Rightarrow> inst \<Rightarrow> bool" where
  "isCondBranch BC I = (MIA_isBranch BC I \<and> \<not> MIB_isUnconditionalBranch BC I)"

definition namesReg :: "reg \<Rightarrow> inst \<Rightarrow> bool" where
  "namesReg r I = (Reg r \<in> set (operands I))"

text \<open>
  The call check of \<^verbatim>\<open>shouldRejectInstruction\<close> reads the instructions of the block
  at the indices from \<^verbatim>\<open>seqStartIdx\<close> up to \<^verbatim>\<open>instIdx\<close> and looks for a store that names
  SP. The source reads \<^verbatim>\<open>BB->getInstructionAtIndex(i)\<close> unchecked; an index past the end
  of the block has no defined result, which the model reports as \<open>None\<close>.
\<close>

fun stackWriteBefore :: "host \<Rightarrow> inst list \<Rightarrow> nat list \<Rightarrow> bool option" where
  "stackWriteBefore BC bb [] = Some False"
| "stackWriteBefore BC bb (i # is) =
     (if i < length bb then
        (if mayStore BC (opcode (bb ! i)) \<and> namesReg (getStackPointer BC) (bb ! i)
         then Some True
         else stackWriteBefore BC bb is)
      else None)"

text \<open>The operand scan of \<^verbatim>\<open>shouldRejectInstruction\<close>: a use of FP or LR returns at
  once; otherwise the scan records whether SP is named and whether it is a definition.\<close>

fun scanOperands ::
  "host \<Rightarrow> nat \<Rightarrow> operand list \<Rightarrow> nat \<Rightarrow> bool \<Rightarrow> bool \<Rightarrow> (bool \<times> bool) option" where
  "scanOperands BC nd [] opIdx usesSP modifiesSP = Some (usesSP, modifiesSP)"
| "scanOperands BC nd (Reg r # ops) opIdx usesSP modifiesSP =
     (if r = getFramePointer BC \<or> isSubRegisterEq BC (getFramePointer BC) r \<or>
         r = getLinkRegister BC \<or> isSubRegisterEq BC (getLinkRegister BC) r
      then None
      else if r = getStackPointer BC \<or> isSubRegisterEq BC (getStackPointer BC) r
      then scanOperands BC nd ops (Suc opIdx) True (modifiesSP \<or> opIdx < nd)
      else scanOperands BC nd ops (Suc opIdx) usesSP modifiesSP)"
| "scanOperands BC nd (x # ops) opIdx usesSP modifiesSP =
     scanOperands BC nd ops (Suc opIdx) usesSP modifiesSP"

definition isPCRelative :: "host \<Rightarrow> inst \<Rightarrow> bool" where
  "isPCRelative BC I =
     (let name = getOpcodeName BC (opcode I) in
      equals_insensitive name ''ADR'' \<or> equals_insensitive name ''ADRP'' \<or>
      (starts_with (lower name) (lower ''LDR'') \<and> str_contains (lower name) (lower ''_LIT'')))"

text \<open>
  \<^verbatim>\<open>shouldRejectInstruction(BC, Inst, len, allowBranch, isLastInSeq, BB, seqStartIdx,
  instIdx)\<close>. The result is the reject reason, 0 for an accepted instruction.
\<close>

definition shouldRejectInstruction ::
  "host \<Rightarrow> inst \<Rightarrow> int \<Rightarrow> bool \<Rightarrow> bool \<Rightarrow> inst list \<Rightarrow> nat \<Rightarrow> nat \<Rightarrow> nat option" where
  "shouldRejectInstruction BC I len allowBranch isLastInSeq BB seqStartIdx instIdx =
     (if opcode I = 0 \<or> MIB_isPseudo BC I \<or> MIB_isCFI BC I then Some 1
      else if MIB_isReturn BC I then Some 2
      else if MIB_isCall BC I then
        (if \<not> isLastInSeq then Some 2
         else case stackWriteBefore BC BB [seqStartIdx ..< instIdx] of
                None \<Rightarrow> None
              | Some True \<Rightarrow> Some 2
              | Some False \<Rightarrow> Some 0)
      else if MIA_isBranch BC I then
        (if isLastInSeq then
           (if MIB_isUnconditionalBranch BC I then Some 2 else Some 0)
         else Some 2)
      else if isAArch64 BC \<and> isPCRelative BC I then Some 3
      else
        (case scanOperands BC (getNumDefs BC (opcode I)) (operands I) 0 False False of
           None \<Rightarrow> Some 4
         | Some (usesSP, modifiesSP) \<Rightarrow>
             if modifiesSP then Some 5
             else if usesSP then
               (if mayStore BC (opcode I) then Some 6
                else if \<not> (5 \<le> len) then
                  (if \<not> mayLoad BC (opcode I) then Some 6
                   else if \<not> (\<exists>x \<in> set (operands I). isImm x) then Some 7
                   else Some 0)
                else Some 0)
             else Some 0))"


section \<open>The sequence fingerprint\<close>

text \<open>
  \<^verbatim>\<open>normalizeRegister(reg, regMap, nextRegId)\<close> returns the id that enters the hash and
  updates the map and the counter, both passed by reference in the source.
\<close>

type_synonym regmap = "64 word \<rightharpoonup> 64 word"

definition normalizeRegister ::
  "64 word \<Rightarrow> regmap \<Rightarrow> 64 word \<Rightarrow> 64 word \<times> regmap \<times> 64 word" where
  "normalizeRegister r regMap nextRegId =
     (if r = 31 \<or> r = 29 \<or> r = 30 then (r, regMap, nextRegId)
      else case regMap r of
             None \<Rightarrow> (nextRegId, regMap(r \<mapsto> nextRegId), nextRegId + 1)
           | Some v \<Rightarrow> (v, regMap, nextRegId))"

definition FNV_offset :: "64 word" where
  "FNV_offset = 14695981039346656037"

definition FNV_prime :: "64 word" where
  "FNV_prime = 1099511628211"

text \<open>One round of FNV-1a: \<^verbatim>\<open>hash ^= x; hash *= FNV_prime\<close>.\<close>

definition fnv :: "64 word \<Rightarrow> 64 word \<Rightarrow> 64 word" where
  "fnv h x = (h XOR x) * FNV_prime"

fun hashOperands ::
  "host \<Rightarrow> operand list \<Rightarrow> 64 word \<Rightarrow> regmap \<Rightarrow> 64 word \<Rightarrow> 64 word \<times> regmap \<times> 64 word"
  where
  "hashOperands BC [] h regMap nextRegId = (h, regMap, nextRegId)"
| "hashOperands BC (Reg r # ops) h regMap nextRegId =
     (case normalizeRegister (ucast r) regMap nextRegId of
        (n, regMap', nextRegId') \<Rightarrow> hashOperands BC ops (fnv h n) regMap' nextRegId')"
| "hashOperands BC (Imm v # ops) h regMap nextRegId =
     hashOperands BC ops (fnv h v) regMap nextRegId"
| "hashOperands BC (Expr e # ops) h regMap nextRegId =
     hashOperands BC ops (fnv h 0xDEADBEEF) regMap nextRegId"
| "hashOperands BC (SFPImm f # ops) h regMap nextRegId =
     hashOperands BC ops (fnv h (hashSFPImm BC f)) regMap nextRegId"

fun hashInsts ::
  "host \<Rightarrow> inst list \<Rightarrow> 64 word \<Rightarrow> regmap \<Rightarrow> 64 word \<Rightarrow> 64 word" where
  "hashInsts BC [] h regMap nextRegId = h"
| "hashInsts BC (I # seq) h regMap nextRegId =
     (case hashOperands BC (operands I) (fnv h (ucast (opcode I))) regMap nextRegId of
        (h', regMap', nextRegId') \<Rightarrow> hashInsts BC seq h' regMap' nextRegId')"

definition getHash :: "host \<Rightarrow> inst list \<Rightarrow> 64 word" where
  "getHash BC seq = hashInsts BC seq FNV_offset Map.empty 1000"












section \<open>Instruction equality, overlap and immediate compatibility\<close>

text \<open>
  \<^verbatim>\<open>areInstructionsEqual\<close>: same opcode, same number of operands, and at each position
  operands of the same kind with the same value (expressions by pointer).
\<close>

definition sameKind :: "operand \<Rightarrow> operand \<Rightarrow> bool" where
  "sameKind a b =
     (isReg a = isReg b \<and> isImm a = isImm b \<and> isExpr a = isExpr b \<and> isSFPImm a = isSFPImm b)"

fun sameValue :: "operand \<Rightarrow> operand \<Rightarrow> bool" where
  "sameValue (Reg a) (Reg b) = (a = b)"
| "sameValue (Imm a) (Imm b) = (a = b)"
| "sameValue (SFPImm a) (SFPImm b) = (a = b)"
| "sameValue (Expr a) (Expr b) = (a = b)"
| "sameValue x y = True"

fun operandsEqual :: "operand list \<Rightarrow> operand list \<Rightarrow> bool" where
  "operandsEqual [] ys = True"
| "operandsEqual (x # xs) [] = True"
| "operandsEqual (x # xs) (y # ys) =
     (if \<not> sameKind x y then False
      else if \<not> sameValue x y then False
      else operandsEqual xs ys)"

definition areInstructionsEqual :: "inst \<Rightarrow> inst \<Rightarrow> bool" where
  "areInstructionsEqual Inst1 Inst2 =
     (if opcode Inst1 \<noteq> opcode Inst2 then False
      else if length (operands Inst1) \<noteq> length (operands Inst2) then False
      else operandsEqual (operands Inst1) (operands Inst2))"

definition hasOverlappedInstrs :: "inst list \<Rightarrow> inst list \<Rightarrow> bool" where
  "hasOverlappedInstrs seq1 seq2 =
     list_ex (\<lambda>Inst1. list_ex (\<lambda>Inst2. areInstructionsEqual Inst1 Inst2) seq2) seq1"

text \<open>
  A textual copy of a window: the same opcodes and operands, where two expression
  operands are the same text when they are one object or refer to the same symbol.
\<close>

fun sameText :: "host \<Rightarrow> operand \<Rightarrow> operand \<Rightarrow> bool" where
  "sameText BC (Expr a) (Expr b) =
     (a = b \<or> (exprSymbol BC a \<noteq> None \<and> exprSymbol BC a = exprSymbol BC b))"
| "sameText BC x y = (x = y)"

definition textualCopy :: "host \<Rightarrow> inst list \<Rightarrow> inst list \<Rightarrow> bool" where
  "textualCopy BC W1 W2 =
     list_all2 (\<lambda>I J. opcode I = opcode J \<and> list_all2 (sameText BC) (operands I) (operands J))
       W1 W2"

definition isShiftName :: "string \<Rightarrow> bool" where
  "isShiftName n =
     (str_contains n ''lsr'' \<or> str_contains n ''lsl'' \<or> str_contains n ''asr'' \<or>
      str_contains n ''ror'')"

fun isStackReg :: "host \<Rightarrow> operand \<Rightarrow> bool" where
  "isStackReg BC (Reg r) =
     (r = getStackPointer BC \<or> r = getFramePointer BC \<or>
      isSubRegisterEq BC (getStackPointer BC) r \<or> isSubRegisterEq BC (getFramePointer BC) r)"
| "isStackReg BC x = False"

definition usesSPorFP :: "host \<Rightarrow> inst \<Rightarrow> bool" where
  "usesSPorFP BC I = list_ex (isStackReg BC) (operands I)"

definition mayAccessMemory :: "host \<Rightarrow> inst \<Rightarrow> bool" where
  "mayAccessMemory BC I = (mayLoad BC (opcode I) \<or> mayStore BC (opcode I))"

text \<open>
  \<^verbatim>\<open>areImmediatesCompatible(BC, Inst1, Inst2, OpIdx1, OpIdx2)\<close>. The immediates are
  \<^verbatim>\<open>int64_t\<close>, 64-bit words in two's complement. \<^verbatim>\<open>Imm1 - Imm2\<close> is the difference
  of the words, which wraps, and \<^verbatim>\<open>std::abs\<close> negates a word whose signed value is
  negative, which wraps too: the absolute value of the least \<^verbatim>\<open>int64_t\<close> is that
  value again. The comparisons with 1 and 15 read the signed value.
\<close>

definition std_abs :: "64 word \<Rightarrow> 64 word" where
  "std_abs x = (if sint x < 0 then - x else x)"

definition immsCompatible :: "host \<Rightarrow> inst \<Rightarrow> inst \<Rightarrow> nat \<Rightarrow> nat \<Rightarrow> 64 word \<Rightarrow> 64 word \<Rightarrow> bool"
  where
  "immsCompatible BC Inst1 Inst2 OpIdx1 OpIdx2 Imm1 Imm2 =
     (if Imm1 = Imm2 then True
      else if mayAccessMemory BC Inst1 \<and> mayAccessMemory BC Inst2 \<and> usesSPorFP BC Inst1
      then False
      else if (isShiftName (lower (getOpcodeName BC (opcode Inst1))) \<and>
               isShiftName (lower (getOpcodeName BC (opcode Inst2)))) \<and>
              OpIdx1 = OpIdx2 \<and> sint (std_abs (Imm1 - Imm2)) \<le> 1
      then True
      else if sint (std_abs Imm1) \<le> 15 \<and> sint (std_abs Imm2) \<le> 15 \<and>
              sint (std_abs (Imm1 - Imm2)) \<le> 1
      then True
      else False)"

definition areImmediatesCompatible :: "host \<Rightarrow> inst \<Rightarrow> inst \<Rightarrow> nat \<Rightarrow> nat \<Rightarrow> bool" where
  "areImmediatesCompatible BC Inst1 Inst2 OpIdx1 OpIdx2 =
     (if OpIdx1 \<ge> length (operands Inst1) \<or> OpIdx2 \<ge> length (operands Inst2) then False
      else case (operands Inst1 ! OpIdx1, operands Inst2 ! OpIdx2) of
             (Imm Imm1, Imm Imm2) \<Rightarrow> immsCompatible BC Inst1 Inst2 OpIdx1 OpIdx2 Imm1 Imm2
           | (Op1, Op2) \<Rightarrow> isImm Op1 = isImm Op2)"

definition areInstructionsSemanticallyEquivalent :: "inst \<Rightarrow> inst \<Rightarrow> bool" where
  "areInstructionsSemanticallyEquivalent Inst1 Inst2 =
     (opcode Inst1 = opcode Inst2 \<and> length (operands Inst1) = length (operands Inst2))"

text \<open>
  The immediate-compatibility rule in the words of the specification: equal; or both
  shift opcodes and at most 1 apart; or both in \<open>[-15, 15]\<close> and at most 1 apart; an
  immediate on an instruction that accesses memory through SP or FP must be equal.
\<close>

definition stackAddressed :: "host \<Rightarrow> inst \<Rightarrow> bool" where
  "stackAddressed BC I = (mayAccessMemory BC I \<and> usesSPorFP BC I)"


section \<open>The duplicate grouper\<close>

text \<open>
  The structural re-check of the driver, for one pair of instructions: the loop over
  the operand positions. Registers are compared after the narrowing to the 16-bit
  \<^verbatim>\<open>MCPhysReg\<close> that the source performs, against the constants 31, 29 and 30.
\<close>

definition isFixedPhysReg :: "16 word \<Rightarrow> bool" where
  "isFixedPhysReg r = (r = 31 \<or> r = 29 \<or> r = 30)"

fun operandsMatch :: "host \<Rightarrow> inst \<Rightarrow> inst \<Rightarrow> nat list \<Rightarrow> bool" where
  "operandsMatch BC Inst1 Inst2 [] = True"
| "operandsMatch BC Inst1 Inst2 (opIdx # rest) =
     (let Op1 = operands Inst1 ! opIdx; Op2 = operands Inst2 ! opIdx in
      case (Op1, Op2) of
        (Reg R1, Reg R2) \<Rightarrow>
          (let Reg1 = (ucast R1 :: 16 word); Reg2 = (ucast R2 :: 16 word) in
           if (isFixedPhysReg Reg1 \<or> isFixedPhysReg Reg2) \<and> Reg1 \<noteq> Reg2 then False
           else operandsMatch BC Inst1 Inst2 rest)
      | (Imm a, Imm b) \<Rightarrow>
          (if \<not> areImmediatesCompatible BC Inst1 Inst2 opIdx opIdx then False
           else operandsMatch BC Inst1 Inst2 rest)
      | _ \<Rightarrow>
          (if isReg Op1 \<noteq> isReg Op2 \<or> isImm Op1 \<noteq> isImm Op2 \<or> isExpr Op1 \<noteq> isExpr Op2
           then False
           else operandsMatch BC Inst1 Inst2 rest))"

definition instsMatch :: "host \<Rightarrow> inst \<Rightarrow> inst \<Rightarrow> bool" where
  "instsMatch BC Inst1 Inst2 =
     (if opcode Inst1 \<noteq> opcode Inst2 then False
      else if length (operands Inst1) \<noteq> length (operands Inst2) then False
      else operandsMatch BC Inst1 Inst2 [0 ..< length (operands Inst1)])"

text \<open>\<open>sequencesMatch\<close>: equal hashes, or equal lengths, every pair of instructions
  semantically equivalent, and every pair passing the structural re-check.\<close>

definition sequencesMatch :: "host \<Rightarrow> inst list \<Rightarrow> inst list \<Rightarrow> bool" where
  "sequencesMatch BC si sj =
     (if getHash BC si = getHash BC sj then True
      else if length si = length sj then
        (if list_all2 areInstructionsSemanticallyEquivalent si sj
         then list_all2 (instsMatch BC) si sj
         else False)
      else False)"

text \<open>
  The inner loop of the driver over the later windows \<open>j\<close>. The state is the set of
  labelled windows (pointers into \<^verbatim>\<open>seqs\<close>, here indices), the list
  \<^verbatim>\<open>CurrentMatches\<close> and the counter \<^verbatim>\<open>Frequency\<close>.
\<close>

fun groupLoop ::
  "host \<Rightarrow> inst list list \<Rightarrow> nat \<Rightarrow> nat list \<Rightarrow> nat list \<times> nat list \<times> int \<Rightarrow>
     nat list \<times> nat list \<times> int" where
  "groupLoop BC seqs i [] st = st"
| "groupLoop BC seqs i (j # js) (Labeled, CurrentMatches, Frequency) =
     (if hasOverlappedInstrs (seqs ! i) (seqs ! j)
      then groupLoop BC seqs i js (Labeled, CurrentMatches, Frequency)
      else if sequencesMatch BC (seqs ! i) (seqs ! j) \<and> j \<notin> set Labeled then
        (if list_ex (\<lambda>a. hasOverlappedInstrs (seqs ! a) (seqs ! j)) CurrentMatches
         then groupLoop BC seqs i js (Labeled, CurrentMatches, Frequency)
         else groupLoop BC seqs i js (j # Labeled, CurrentMatches @ [j], Frequency + 1))
      else groupLoop BC seqs i js (Labeled, CurrentMatches, Frequency))"

text \<open>Grouping for the anchor \<open>i\<close>: label it, start with \<open>CurrentMatches = [i]\<close> and
  \<open>Frequency = 1\<close>, then run over \<open>j = i + 1, \<dots>, n - 1\<close>.\<close>

definition groupAnchor ::
  "host \<Rightarrow> inst list list \<Rightarrow> nat \<Rightarrow> nat list \<Rightarrow> nat list \<times> nat list \<times> int" where
  "groupAnchor BC seqs i Labeled =
     groupLoop BC seqs i [Suc i ..< length seqs] (i # Labeled, [i], 1)"

section \<open>Functions, blocks and the LR analysis\<close>

text \<open>
  A basic block: its instructions, its successors (indices into the block list of the
  function), its profile and its address (the driver sorts locations by block pointer).
  A function: its name, its blocks in layout order and the flags the pass reads.
  \<open>optimizable\<close> is the host's \<^verbatim>\<open>shouldOptimize(BF)\<close>.
\<close>

record block =
  insts :: "inst list"
  succs :: "nat list"
  bbHasProfile :: bool
  bbExecCount :: "64 word"
  bbAddr :: nat

record bfunction =
  fname :: string
  blocks :: "block list"
  isInjected :: bool
  hasEHRanges :: bool
  fHasProfile :: bool
  fExecCount :: "64 word"
  optimizable :: bool
  isIgnored :: bool

definition isLeafFunction :: "host \<Rightarrow> bfunction \<Rightarrow> bool" where
  "isLeafFunction BC BF =
     (if blocks BF = [] then True
      else \<not> list_ex (\<lambda>BB. list_ex (MIB_isCall BC) (insts BB)) (blocks BF))"

text \<open>Index of the first return of a block (\<^verbatim>\<open>SIZE_MAX\<close> in the source when there
  is none: no start index is greater).\<close>

fun firstReturn :: "host \<Rightarrow> inst list \<Rightarrow> nat \<Rightarrow> nat option" where
  "firstReturn BC [] i = None"
| "firstReturn BC (I # Is) i = (if MIA_isReturn BC I then Some i else firstReturn BC Is (Suc i))"

text \<open>
  The first loop of \<^verbatim>\<open>isLRSavedAtPoint\<close>, over the blocks of the function in layout
  order up to the block of the location. \<open>False\<close> is the early \<^verbatim>\<open>return false\<close>
  (the site is unsafe), \<open>True\<close> lets the analysis continue.
\<close>

fun retScan :: "host \<Rightarrow> block list \<Rightarrow> nat \<Rightarrow> nat \<Rightarrow> nat \<Rightarrow> bool \<Rightarrow> bool" where
  "retScan BC [] k bb StartIndex retEncountered = True"
| "retScan BC (FuncBB # rest) k bb StartIndex retEncountered =
     (let retEncountered' = (retEncountered \<or> list_ex (MIA_isReturn BC) (insts FuncBB)) in
      if retEncountered' \<and> k = bb then
        (case firstReturn BC (insts FuncBB) 0 of
           Some retIndex \<Rightarrow> \<not> (StartIndex > retIndex)
         | None \<Rightarrow> True)
      else if retEncountered' then False
      else if k = bb then True
      else retScan BC rest (Suc k) bb StartIndex retEncountered')"

text \<open>The second loop: the scan of the entry block for a push or store that names LR.\<close>

fun lrScan :: "host \<Rightarrow> bool \<Rightarrow> inst list \<Rightarrow> bool" where
  "lrScan BC IsEntryBlock [] = False"
| "lrScan BC IsEntryBlock (I # Is) =
     (if (MIB_isPush BC I \<or> mayStore BC (opcode I)) \<and> namesReg (getLinkRegister BC) I then True
      else if (MIA_isTerminator BC I \<or> MIA_isCall BC I) \<and> IsEntryBlock then False
      else lrScan BC IsEntryBlock Is)"

definition isLRSavedAtPoint :: "host \<Rightarrow> bfunction \<Rightarrow> nat \<Rightarrow> nat \<Rightarrow> bool" where
  "isLRSavedAtPoint BC BF bb StartIndex =
     (if blocks BF = [] then False
      else if \<not> retScan BC (blocks BF) 0 bb StartIndex False then False
      else
        (let EntryBB = hd (blocks BF);
             IsEntryBlock = (bb = 0);
             Limit = (if IsEntryBlock then StartIndex else length (insts EntryBB))
         in lrScan BC IsEntryBlock (take Limit (insts EntryBB))))"

text \<open>The trampoline choice, computed the same way by the cost model, by the driver
  before synthesis and by \<^verbatim>\<open>replaceSequenceWithCall\<close>: \<^verbatim>\<open>IsRealLeaf || !SafeToCall\<close>.\<close>

definition IsCallerLeaf :: "host \<Rightarrow> bfunction \<Rightarrow> nat \<Rightarrow> nat \<Rightarrow> bool" where
  "IsCallerLeaf BC CallerFunc bb StartIdx =
     (let IsRealLeaf = (isLeafFunction BC CallerFunc \<and> \<not> isInjected CallerFunc);
          SafeToCall = isLRSavedAtPoint BC CallerFunc bb StartIdx
      in IsRealLeaf \<or> \<not> SafeToCall)"

section \<open>The cost model\<close>

text \<open>
  The loop of the driver over the located occurrences. A location is the index of its
  block in the function and its start index. The counters are \<^verbatim>\<open>int\<close>, the
  frequencies \<^verbatim>\<open>uint64_t\<close>. A value of type \<^verbatim>\<open>int\<close> is a 32-bit word in two's
  complement: sums, differences and products wrap, and a comparison reads the signed
  value (\<open>sint\<close>).
\<close>

type_synonym location = "nat \<times> nat"

type_synonym cint = "32 word"

fun countLocations ::
  "host \<Rightarrow> bool \<Rightarrow> bfunction \<Rightarrow> location list \<Rightarrow> cint \<times> cint \<times> 64 word \<times> 64 word \<Rightarrow>
     cint \<times> cint \<times> 64 word \<times> 64 word" where
  "countLocations BC EnablePGO BF [] st = st"
| "countLocations BC EnablePGO BF ((bb, StartIdx) # locs)
     (sandwichCallCount, normalCallCount, totalExecutionFrequency, maxExecutionFrequency) =
     (let BB = blocks BF ! bb;
          sandwich = IsCallerLeaf BC BF bb StartIdx;
          bbExecFreq =
            (if EnablePGO \<and> bbHasProfile BB
             then (if bbExecCount BB = 0 then 1 else bbExecCount BB)
             else 1)
      in countLocations BC EnablePGO BF locs
           (if sandwich then sandwichCallCount + 1 else sandwichCallCount,
            if sandwich then normalCallCount else normalCallCount + 1,
            totalExecutionFrequency + bbExecFreq,
            if bbExecFreq > maxExecutionFrequency then bbExecFreq else maxExecutionFrequency))"

text \<open>The purity test of the cost model, one instruction at a time; the source leaves
  the loop at the first instruction that makes the body impure.\<close>

definition instKeepsPure :: "host \<Rightarrow> inst \<Rightarrow> bool" where
  "instKeepsPure BC I =
     (if isCondBranch BC I then False
      else if mayAccessMemory BC I \<and> namesReg (getStackPointer BC) I then False
      else if MIB_isCall BC I then False
      else \<not> list_ex (\<lambda>Op. Op = Reg (getFramePointer BC))
                 (drop (getNumDefs BC (opcode I)) (operands I)))"

fun isOutlinedFuncPure :: "host \<Rightarrow> inst list \<Rightarrow> bool" where
  "isOutlinedFuncPure BC [] = True"
| "isOutlinedFuncPure BC (I # seq) =
     (if instKeepsPure BC I then isOutlinedFuncPure BC seq else False)"

text \<open>
  The arithmetic of the decision. Every quantity but the frequencies is an \<^verbatim>\<open>int\<close>,
  the loop variable \<^verbatim>\<open>len\<close> included. \<^verbatim>\<open>static_cast<int>(weightedFrequency)\<close> keeps
  the low 32 bits of the 64-bit frequency, and the product
  \<^verbatim>\<open>(len * InstSizeBytes) * static_cast<int>(weightedFrequency)\<close> is a product of two
  \<^verbatim>\<open>int\<close>s, so it wraps as well.
\<close>

record decision =
  outlinedFuncSize :: cint
  totalCallCost :: cint
  savedBytes :: cint
  costBytes :: cint
  netBenefit :: cint
  MinBenefitThreshold :: cint

definition castToInt :: "64 word \<Rightarrow> cint" where
  "castToInt w = ucast w"

definition costModel ::
  "int \<Rightarrow> bool \<Rightarrow> cint \<Rightarrow> cint \<Rightarrow> 64 word \<Rightarrow> nat \<Rightarrow> decision" where
  "costModel len0 isPure sandwichCallCount normalCallCount weightedFrequency numLocations =
     (let len = (word_of_int len0 :: cint);
          InstSizeBytes = (4 :: cint); CallInstSize = (4 :: cint);
          SandwichCallSize = (12 :: cint);
          PrologueSize = (4 :: cint); EpilogueSize = (4 :: cint); RetSize = (4 :: cint);
          size = (if isPure then (len * InstSizeBytes) + RetSize
                  else PrologueSize + (len * InstSizeBytes) + EpilogueSize + RetSize);
          callCost = (sandwichCallCount * SandwichCallSize) + (normalCallCount * CallInstSize);
          saved = (len * InstSizeBytes) * castToInt weightedFrequency;
          cost = size + callCost;
          avgFreq = weightedFrequency div
                      (if numLocations > 0 then (word_of_nat numLocations :: 64 word) else 1);
          threshold =
            (if isPure then
               (if avgFreq \<ge> 3 \<or> numLocations \<ge> 3 then - 4
                else if avgFreq \<ge> 2 \<or> numLocations \<ge> 2 then 0
                else 4)
             else 0)
      in \<lparr> outlinedFuncSize = size, totalCallCost = callCost, savedBytes = saved,
           costBytes = cost, netBenefit = saved - cost, MinBenefitThreshold = threshold \<rparr>)"

text \<open>The cost model for an anchor window and its locations, and the test
  \<^verbatim>\<open>netBenefit > MinBenefitThreshold\<close> that admits the candidate.\<close>

definition decide :: "host \<Rightarrow> bool \<Rightarrow> bfunction \<Rightarrow> int \<Rightarrow> inst list \<Rightarrow> location list \<Rightarrow> decision"
  where
  "decide BC EnablePGO BF len seq locations =
     (case countLocations BC EnablePGO BF locations (0, 0, 0, 0) of
        (sandwichCallCount, normalCallCount, totalExecutionFrequency, maxExecutionFrequency) \<Rightarrow>
          costModel len (isOutlinedFuncPure BC seq) sandwichCallCount normalCallCount
            (if EnablePGO then totalExecutionFrequency else word_of_nat (length locations))
            (length locations))"

definition admitted :: "decision \<Rightarrow> bool" where
  "admitted d = (sint (netBenefit d) > sint (MinBenefitThreshold d))"

section \<open>The function synthesizer\<close>

text \<open>\<^verbatim>\<open>getInstructionScale\<close>: the memory scale read off the lower-cased opcode name.\<close>

definition getInstructionScale :: "host \<Rightarrow> inst \<Rightarrow> nat" where
  "getInstructionScale BC I =
     (let NameLower = lower (getOpcodeName BC (opcode I));
          single =
            (if starts_with NameLower ''ldr'' \<or> starts_with NameLower ''str'' then
               (if str_contains NameLower ''xui'' then 8
                else if str_contains NameLower ''wui'' then 4
                else if str_contains NameLower ''qui'' then 16
                else if str_contains NameLower ''hui'' then 2
                else if str_contains NameLower ''bui'' then 1
                else if starts_with NameLower ''ldur'' \<or> starts_with NameLower ''stur'' then 1
                else 1)
             else 1)
      in if starts_with NameLower ''ldp'' \<or> starts_with NameLower ''stp'' then
           (if str_contains NameLower ''xi'' then 8
            else if str_contains NameLower ''wi'' then 4
            else if str_contains NameLower ''qi'' then 16
            else if str_contains NameLower ''di'' then 8
            else if str_contains NameLower ''si'' then 4
            else single)
         else single)"

text \<open>
  The displacement fixup of one instruction. For a load or store the loop over the
  operands stops at the first SP operand whose next operand is an immediate and adds
  the adjustment to it. For an add or sub against SP it stops at the first immediate
  after an SP operand. The flag tells whether an immediate was changed
  (\<^verbatim>\<open>FixedCount++\<close>).
\<close>

fun fixLoadStoreOps :: "reg \<Rightarrow> 64 word \<Rightarrow> operand list \<Rightarrow> operand list \<times> bool" where
  "fixLoadStoreOps SP adj [] = ([], False)"
| "fixLoadStoreOps SP adj [x] = ([x], False)"
| "fixLoadStoreOps SP adj (x # y # rest) =
     (if x = Reg SP \<and> isImm y then
        (case y of Imm v \<Rightarrow> (x # Imm (v + adj) # rest, True) | _ \<Rightarrow> (x # y # rest, False))
      else case fixLoadStoreOps SP adj (y # rest) of (ops, fixed) \<Rightarrow> (x # ops, fixed))"

fun fixFirstImm :: "64 word \<Rightarrow> operand list \<Rightarrow> operand list \<times> bool" where
  "fixFirstImm adj [] = ([], False)"
| "fixFirstImm adj (Imm v # rest) = (Imm (v + adj) # rest, True)"
| "fixFirstImm adj (x # rest) = (case fixFirstImm adj rest of (ops, fixed) \<Rightarrow> (x # ops, fixed))"

fun fixAddSubOps :: "reg \<Rightarrow> 64 word \<Rightarrow> operand list \<Rightarrow> operand list \<times> bool" where
  "fixAddSubOps SP adj [] = ([], False)"
| "fixAddSubOps SP adj (x # rest) =
     (if x = Reg SP then (case fixFirstImm adj rest of (ops, fixed) \<Rightarrow> (x # ops, fixed))
      else case fixAddSubOps SP adj rest of (ops, fixed) \<Rightarrow> (x # ops, fixed))"

text \<open>\<open>hasSPImm SP ops\<close>: some SP operand is directly followed by an immediate.\<close>

fun hasSPImm :: "reg \<Rightarrow> operand list \<Rightarrow> bool" where
  "hasSPImm SP (x # y # rest) = ((x = Reg SP \<and> isImm y) \<or> hasSPImm SP (y # rest))"
| "hasSPImm SP ops = False"

definition isLoadStore :: "host \<Rightarrow> inst \<Rightarrow> bool" where
  "isLoadStore BC I = (mayLoad BC (opcode I) \<or> mayStore BC (opcode I))"

definition isAddSub :: "host \<Rightarrow> inst \<Rightarrow> bool" where
  "isAddSub BC I =
     (let InstNameLower = lower (getOpcodeName BC (opcode I)) in
      (starts_with InstNameLower ''add'' \<or> starts_with InstNameLower ''sub'') \<and>
      str_contains InstNameLower ''sp'' \<and>
      \<not> list_ex (\<lambda>Op. Op = Reg (getStackPointer BC))
           (take (getNumDefs BC (opcode I)) (operands I)))"

definition fixInst :: "host \<Rightarrow> nat \<Rightarrow> inst \<Rightarrow> inst \<times> bool" where
  "fixInst BC ByteFixOffset I =
     (if \<not> isLoadStore BC I \<and> \<not> isAddSub BC I then (I, False)
      else
        (let Scale = (if isLoadStore BC I then getInstructionScale BC I else 1);
             ImmAdjustment = (word_of_nat (ByteFixOffset div Scale) :: 64 word)
         in case (if isLoadStore BC I
                  then fixLoadStoreOps (getStackPointer BC) ImmAdjustment (operands I)
                  else fixAddSubOps (getStackPointer BC) ImmAdjustment (operands I)) of
              (ops, fixed) \<Rightarrow> (I\<lparr>operands := ops\<rparr>, fixed)))"

definition ByteFixOffset :: "bool \<Rightarrow> nat" where
  "ByteFixOffset IsCalledViaSandwich = (if IsCalledViaSandwich then 32 else 16)"

definition fixBlock :: "host \<Rightarrow> nat \<Rightarrow> block \<Rightarrow> block" where
  "fixBlock BC fixOffset BB = BB\<lparr>insts := map (\<lambda>I. fst (fixInst BC fixOffset I)) (insts BB)\<rparr>"

definition fixedCount :: "host \<Rightarrow> nat \<Rightarrow> block list \<Rightarrow> nat" where
  "fixedCount BC fixOffset bs =
     length (filter (\<lambda>I. snd (fixInst BC fixOffset I)) (concat (map insts bs)))"

text \<open>
  The purity scan of the synthesizer. It stops at the first conditional branch and as
  soon as a call and a use of FP have both been seen. The state is
  \<open>(needsLR, usesFP, hasConditionalBranch)\<close>.
\<close>

definition usesFPAsSource :: "host \<Rightarrow> inst \<Rightarrow> bool" where
  "usesFPAsSource BC I =
     list_ex (\<lambda>Op. Op = Reg (getFramePointer BC)) (drop (getNumDefs BC (opcode I)) (operands I))"

fun purityScanInsts :: "host \<Rightarrow> inst list \<Rightarrow> bool \<times> bool \<times> bool \<Rightarrow> bool \<times> bool \<times> bool" where
  "purityScanInsts BC [] st = st"
| "purityScanInsts BC (I # Is) (needsLR, usesFP, hasConditionalBranch) =
     (if isCondBranch BC I then (needsLR, usesFP, True)
      else
        (let needsLR' = (needsLR \<or> MIB_isCall BC I);
             usesFP' = (usesFP \<or> usesFPAsSource BC I)
         in if hasConditionalBranch \<or> (needsLR' \<and> usesFP')
            then (needsLR', usesFP', hasConditionalBranch)
            else purityScanInsts BC Is (needsLR', usesFP', hasConditionalBranch)))"

fun purityScanBlocks :: "host \<Rightarrow> block list \<Rightarrow> bool \<times> bool \<times> bool \<Rightarrow> bool \<times> bool \<times> bool" where
  "purityScanBlocks BC [] st = st"
| "purityScanBlocks BC (CurrBB # rest) st =
     (case purityScanInsts BC (insts CurrBB) st of
        (needsLR, usesFP, hasConditionalBranch) \<Rightarrow>
          if hasConditionalBranch \<or> (needsLR \<and> usesFP)
          then (needsLR, usesFP, hasConditionalBranch)
          else purityScanBlocks BC rest (needsLR, usesFP, hasConditionalBranch))"

definition isPureFunction :: "host \<Rightarrow> nat \<Rightarrow> block list \<Rightarrow> block list \<Rightarrow> bool" where
  "isPureFunction BC fixOffset original fixed =
     (case purityScanBlocks BC fixed (False, False, False) of
        (needsLR, usesFP, hasConditionalBranch) \<Rightarrow>
          \<not> (fixedCount BC fixOffset original > 0) \<and> \<not> needsLR \<and> \<not> usesFP \<and>
          \<not> hasConditionalBranch)"

text \<open>The target of a direct call: the symbol of its first operand that is a
  symbol-reference expression.\<close>

fun findTargetSymbol :: "host \<Rightarrow> operand list \<Rightarrow> symbol option" where
  "findTargetSymbol BC [] = None"
| "findTargetSymbol BC (Expr e # rest) =
     (case exprSymbol BC e of Some tgt \<Rightarrow> Some tgt | None \<Rightarrow> findTargetSymbol BC rest)"
| "findTargetSymbol BC (x # rest) = findTargetSymbol BC rest"

text \<open>The tail-call step on the entry block (after the prologue is in place); the
  flag is \<^verbatim>\<open>tailCallOptimized\<close>.\<close>

definition tailCallOptimize :: "host \<Rightarrow> inst list \<Rightarrow> inst list \<times> bool" where
  "tailCallOptimize BC Is =
     (if length Is \<ge> 2 then
        (let CallInst = Is ! (length Is - 2); RetInst = Is ! (length Is - 1) in
         if MIB_isCall BC CallInst \<and> MIB_isReturn BC RetInst then
           (if \<not> MIB_isIndirectCall BC CallInst then
              (case findTargetSymbol BC (operands CallInst) of
                 Some TargetSymbol \<Rightarrow>
                   (take (length Is - 2) Is @ [createUncondBranch BC TargetSymbol], True)
               | None \<Rightarrow> (take (length Is - 1) Is, True))
            else (Is, False))
         else (Is, False))
      else (Is, False))"

fun insertBeforeReturn :: "host \<Rightarrow> inst \<Rightarrow> inst list \<Rightarrow> inst list" where
  "insertBeforeReturn BC Epilogue [] = [Epilogue]"
| "insertBeforeReturn BC Epilogue (I # Is) =
     (if MIB_isReturn BC I then Epilogue # I # Is
      else I # insertBeforeReturn BC Epilogue Is)"

text \<open>\<^verbatim>\<open>stackFrameManage(outlinedFunc, IsCalledViaSandwich)\<close>.\<close>

definition stackFrameManage :: "host \<Rightarrow> bfunction \<Rightarrow> bool \<Rightarrow> bfunction" where
  "stackFrameManage BC outlinedFunc IsCalledViaSandwich =
     (if \<not> list_ex (\<lambda>BB. insts BB \<noteq> []) (blocks outlinedFunc) then outlinedFunc
      else if \<not> isAArch64 BC then outlinedFunc
      else case blocks outlinedFunc of
        [] \<Rightarrow> outlinedFunc
      | First # others \<Rightarrow>
          if insts First = [] then outlinedFunc
          else
            (let fixOffset = ByteFixOffset IsCalledViaSandwich;
                 fixed = map (fixBlock BC fixOffset) (blocks outlinedFunc)
             in if isPureFunction BC fixOffset (blocks outlinedFunc) fixed
                then outlinedFunc\<lparr>blocks := fixed\<rparr>
                else
                  (let BB = hd fixed;
                       withPrologue =
                         createPushRegisters BC (getFramePointer BC) (getLinkRegister BC) # insts BB
                   in case tailCallOptimize BC withPrologue of
                        (Is, tailCallOptimized) \<Rightarrow>
                          if tailCallOptimized
                          then outlinedFunc\<lparr>blocks := BB\<lparr>insts := Is\<rparr> # tl fixed\<rparr>
                          else outlinedFunc\<lparr>blocks :=
                                 BB\<lparr>insts := insertBeforeReturn BC
                                   (createPopRegisters BC (getFramePointer BC) (getLinkRegister BC))
                                   Is\<rparr> # tl fixed\<rparr>)))"

section \<open>The sequence extractor\<close>

text \<open>
  The configuration of the pass: the constructor parameters \<^verbatim>\<open>LargestLength\<close> and
  \<^verbatim>\<open>EnablePGO\<close> and the command-line option \<^verbatim>\<open>post-link-outlining-min-length\<close>.
\<close>

record config =
  LargestLength :: int
  EnablePGO :: bool
  MinLength :: int

text \<open>The window of length \<open>len\<close> at index \<open>i\<close> of a block passes when
  \<^verbatim>\<open>shouldRejectInstruction\<close> returns 0 for each of its instructions (called with
  \<^verbatim>\<open>allowBranch = false\<close>, the block itself, the start \<open>i\<close> and the index \<open>i + j\<close>).\<close>

definition windowAccepted :: "host \<Rightarrow> int \<Rightarrow> inst list \<Rightarrow> nat \<Rightarrow> bool" where
  "windowAccepted BC len Is i =
     list_all (\<lambda>j. shouldRejectInstruction BC (Is ! (i + j)) len False (Suc j = nat len) Is i (i + j)
                     = Some 0)
       [0 ..< nat len]"

text \<open>
  The windows of one block. A block shorter than \<open>len\<close> is skipped by
  \<^verbatim>\<open>if (len_size > numInsts) continue;\<close>. The cross-block extraction that follows in the
  source is guarded by \<^verbatim>\<open>numInsts < len_size\<close> and is therefore never reached; it has no
  counterpart here. A negative \<open>len\<close> becomes a huge \<^verbatim>\<open>size_t\<close> and skips every block.
\<close>

definition windowsOfBlock :: "host \<Rightarrow> int \<Rightarrow> block \<Rightarrow> inst list list" where
  "windowsOfBlock BC len BB =
     (let numInsts = length (insts BB); len_size = nat len in
      if len < 0 \<or> len_size > numInsts then []
      else map (\<lambda>i. take len_size (drop i (insts BB)))
             (filter (windowAccepted BC len (insts BB)) [0 ..< Suc (numInsts - len_size)]))"

definition hotBlock :: "config \<Rightarrow> block \<Rightarrow> bool" where
  "hotBlock cfg BB = (EnablePGO cfg \<and> bbHasProfile BB \<and> bbExecCount BB > 1)"

definition getAllseqs :: "host \<Rightarrow> config \<Rightarrow> bfunction \<Rightarrow> int \<Rightarrow> inst list list" where
  "getAllseqs BC cfg BF len =
     (if len < MinLength cfg \<or> len > LargestLength cfg then []
      else if hasEHRanges BF then []
      else concat (map (\<lambda>BB. if insts BB = [] then []
                               else if hotBlock cfg BB then []
                               else windowsOfBlock BC len BB) (blocks BF)))"

section \<open>Locating occurrences\<close>

text \<open>The hottest successor: the first successor whose known execution count exceeds
  every count seen before it.\<close>

fun hottest :: "block list \<Rightarrow> nat list \<Rightarrow> 64 word \<Rightarrow> nat option \<Rightarrow> nat option" where
  "hottest bs [] maxCount NextBB = NextBB"
| "hottest bs (Succ # rest) maxCount NextBB =
     (if bbExecCount (bs ! Succ) > maxCount
      then hottest bs rest (bbExecCount (bs ! Succ)) (Some Succ)
      else hottest bs rest maxCount NextBB)"

text \<open>\<^verbatim>\<open>getNextBasicBlock\<close>. The walk inside \<^verbatim>\<open>findSequenceLocations\<close> repeats the same
  selection inline (for a block it has checked to be non-empty).\<close>

definition getNextBasicBlock :: "host \<Rightarrow> block list \<Rightarrow> nat \<Rightarrow> nat option" where
  "getNextBasicBlock BC bs cur =
     (let CurrentBB = bs ! cur in
      if insts CurrentBB = [] then None
      else
        (let LastInst = last (insts CurrentBB) in
         if isCondBranch BC LastInst then
           (if succs CurrentBB \<noteq> [] then
              (if length (succs CurrentBB) > 1
               then hottest bs (succs CurrentBB) 0 (Some (hd (succs CurrentBB)))
               else Some (hd (succs CurrentBB)))
            else None)
         else if \<not> MIA_isBranch BC LastInst then
           (if length (succs CurrentBB) = 1 then Some (hd (succs CurrentBB))
            else if length (succs CurrentBB) > 1 then
              (case hottest bs (succs CurrentBB) 0 None of
                 Some NextBB \<Rightarrow> Some NextBB
               | None \<Rightarrow> Some (hd (succs CurrentBB)))
            else None)
         else None))"

text \<open>Matching the instructions of a block against the rest of the sequence: the
  unmatched rest of the sequence, or \<open>None\<close> at the first difference.\<close>

fun matchPrefix :: "inst list \<Rightarrow> inst list \<Rightarrow> inst list option" where
  "matchPrefix [] Seq = Some Seq"
| "matchPrefix (I # Is) [] = Some []"
| "matchPrefix (I # Is) (S # Ss) =
     (if areInstructionsEqual I S then matchPrefix Is Ss else None)"

text \<open>\<^verbatim>\<open>checkCrossBlockMatch\<close>: the walk over at most three blocks (the first argument
  counts the blocks still allowed).\<close>

fun crossMatch :: "host \<Rightarrow> block list \<Rightarrow> nat \<Rightarrow> nat \<Rightarrow> nat \<Rightarrow> inst list \<Rightarrow> bool" where
  "crossMatch BC bs 0 cur idx rest = (rest = [])"
| "crossMatch BC bs (Suc n) cur idx rest =
     (if rest = [] then True
      else if insts (bs ! cur) = [] \<or> idx \<ge> length (insts (bs ! cur)) then False
      else case matchPrefix (drop idx (insts (bs ! cur))) rest of
             None \<Rightarrow> False
           | Some rest' \<Rightarrow>
               if rest' \<noteq> [] then
                 (case getNextBasicBlock BC bs cur of
                    None \<Rightarrow> False
                  | Some NextBB \<Rightarrow> crossMatch BC bs n NextBB 0 rest')
               else True)"

definition matchesAt :: "inst list \<Rightarrow> inst list \<Rightarrow> nat \<Rightarrow> bool" where
  "matchesAt Is Seq i = (matchPrefix (drop i Is) Seq = Some [])"

type_synonym locations = "location list"

definition findInBlock :: "host \<Rightarrow> bfunction \<Rightarrow> inst list \<Rightarrow> nat \<Rightarrow> location list" where
  "findInBlock BC BF Seq b =
     (let Is = insts (blocks BF ! b); SeqLen = length Seq in
      (if length Is \<ge> SeqLen
       then map (\<lambda>i. (b, i)) (filter (matchesAt Is Seq) [0 ..< Suc (length Is - SeqLen)])
       else []) @
      (if length Is > 0 \<and> length Is < SeqLen
       then map (\<lambda>i. (b, i)) (filter (\<lambda>i. crossMatch BC (blocks BF) 3 b i Seq) [0 ..< length Is])
       else []))"

definition findSequenceLocations :: "host \<Rightarrow> bfunction \<Rightarrow> inst list \<Rightarrow> location list" where
  "findSequenceLocations BC BF Seq =
     (if Seq = [] then []
      else concat (map (findInBlock BC BF Seq) [0 ..< length (blocks BF)]))"

section \<open>Creating the outlined function\<close>

function string_of_nat :: "nat \<Rightarrow> string" where
  "string_of_nat n =
     (if n < 10 then [char_of (48 + n)]
      else string_of_nat (n div 10) @ [char_of (48 + n mod 10)])"
  by pat_completeness auto
termination
  by (relation "measure id") auto

text \<open>
  \<^verbatim>\<open>createFunction\<close>. The static counter \<^verbatim>\<open>OutlinedFunctionCount\<close> is passed in and
  returned. The host calls that create the function and its blocks are taken to
  succeed. Conditional branches are redirected to the return label, whose block holds
  the return.
\<close>

definition redirectBranch :: "host \<Rightarrow> symbol \<Rightarrow> inst \<Rightarrow> inst" where
  "redirectBranch BC ReturnLabel I =
     (if isCondBranch BC I
      then I\<lparr>operands :=
             map (\<lambda>Op. if isExpr Op then Expr (createSymbolRefExpr BC ReturnLabel) else Op)
               (operands I)\<rparr>
      else I)"

definition newBlock :: "inst list \<Rightarrow> block" where
  "newBlock Is = \<lparr>insts = Is, succs = [], bbHasProfile = False, bbExecCount = 0, bbAddr = 0\<rparr>"

definition createFunction :: "host \<Rightarrow> nat \<Rightarrow> inst list \<Rightarrow> bfunction option \<times> nat" where
  "createFunction BC OutlinedFunctionCount seq =
     (if seq = [] then (None, OutlinedFunctionCount)
      else
        (let count = Suc OutlinedFunctionCount;
             FuncName = ''PLO_outlined_'' @ string_of_nat count;
             ReturnLabel = ''outlined_return'' @ string_of_nat count;
             hasConditionalBranch = list_ex (isCondBranch BC) seq;
             body = map (redirectBranch BC ReturnLabel)
                      (filter (\<lambda>I. \<not> (MIB_isCFI BC I \<or> MIB_isPseudo BC I)) seq);
             bs = (if hasConditionalBranch
                   then [newBlock body, newBlock [createReturn BC]]
                   else [newBlock (body @ [createReturn BC])])
         in (Some \<lparr>fname = FuncName, blocks = bs, isInjected = True, hasEHRanges = False,
                   fHasProfile = False, fExecCount = 0, optimizable = False,
                   isIgnored = False\<rparr>, count)))"

section \<open>The call-site rewriter\<close>

text \<open>A loop of \<open>n\<close> guarded erasures at one index:
  \<^verbatim>\<open>if (idx < BB->size()) BB->eraseInstruction(BB->begin() + idx)\<close>.\<close>

fun eraseLoop :: "nat \<Rightarrow> nat \<Rightarrow> 'a list \<Rightarrow> 'a list" where
  "eraseLoop 0 idx xs = xs"
| "eraseLoop (Suc n) idx xs =
     (if idx < length xs then eraseLoop n idx (take idx xs @ drop (Suc idx) xs)
      else eraseLoop n idx xs)"

text \<open>Subtraction on \<^verbatim>\<open>size_t\<close>.\<close>

definition sizeSub :: "nat \<Rightarrow> nat \<Rightarrow> nat" where
  "sizeSub a b = (if a \<ge> b then a - b else 2 ^ 64 + a - b)"

text \<open>The blocks a cross-block window covers; \<open>None\<close> when the walk cannot be completed
  (the replacement is then abandoned).\<close>

fun collectRanges ::
  "host \<Rightarrow> block list \<Rightarrow> nat \<Rightarrow> nat \<Rightarrow> nat \<Rightarrow> nat \<Rightarrow> (nat \<times> nat) list option" where
  "collectRanges BC bs 0 cur idx remaining = (if remaining > 0 then None else Some [])"
| "collectRanges BC bs (Suc n) cur idx remaining =
     (if remaining = 0 then Some []
      else
        (let availableInBB = length (insts (bs ! cur)) - idx;
             toRemove = min remaining availableInBB;
             remaining' = remaining - toRemove
         in if remaining' > 0 \<and> idx + toRemove \<ge> length (insts (bs ! cur)) then
              (case getNextBasicBlock BC bs cur of
                 None \<Rightarrow> None
               | Some NextBB \<Rightarrow>
                   (case collectRanges BC bs n NextBB 0 remaining' of
                      None \<Rightarrow> None
                    | Some rs \<Rightarrow> Some ((cur, idx) # rs)))
            else if remaining' > 0 then None
            else Some [(cur, idx)]))"

definition setInsts :: "block list \<Rightarrow> nat \<Rightarrow> inst list \<Rightarrow> block list" where
  "setInsts bs b Is = bs[b := (bs ! b)\<lparr>insts := Is\<rparr>]"

text \<open>Cleaning the later blocks of a cross-block window.\<close>

fun cleanRanges :: "nat \<Rightarrow> (nat \<times> nat) list \<Rightarrow> block list \<Rightarrow> block list" where
  "cleanRanges SeqLen [] bs = bs"
| "cleanRanges SeqLen ((b, cleanStartIdx) # rs) bs =
     (let Is = insts (bs ! b);
          toRemove = min (sizeSub (length Is) cleanStartIdx) SeqLen
      in cleanRanges SeqLen rs (setInsts bs b (eraseLoop toRemove cleanStartIdx Is)))"

definition sandwichAt :: "host \<Rightarrow> inst \<Rightarrow> nat \<Rightarrow> inst list \<Rightarrow> inst list" where
  "sandwichAt BC CallInst StartIdx Is =
     take StartIdx Is @
     [createPushRegisters BC (getFramePointer BC) (getLinkRegister BC), CallInst,
      createPopRegisters BC (getFramePointer BC) (getLinkRegister BC)] @
     drop (Suc StartIdx) Is"

text \<open>\<^verbatim>\<open>replaceSequenceWithCall\<close> for the location \<open>(bb, StartIdx)\<close> of a window of
  \<open>SeqLen\<close> instructions; the outlined function is known by its symbol.\<close>

definition replaceSequenceWithCall ::
  "host \<Rightarrow> bfunction \<Rightarrow> location \<Rightarrow> nat \<Rightarrow> symbol \<Rightarrow> bfunction" where
  "replaceSequenceWithCall BC BF Loc SeqLen OutlinedFuncLabel =
     (case Loc of (bb, StartIdx) \<Rightarrow>
      let Is = insts (blocks BF ! bb);
          isCrossBlock = (StartIdx + SeqLen > length Is)
      in if SeqLen = 0 then BF
         else if \<not> isCrossBlock \<and> (StartIdx \<ge> length Is \<or> StartIdx + SeqLen > length Is) then BF
         else if isCrossBlock \<and> StartIdx \<ge> length Is then BF
         else if \<not> isAArch64 BC then BF
         else
           (let CallInst = createCall BC OutlinedFuncLabel;
                leaf = IsCallerLeaf BC BF bb StartIdx
            in if isCrossBlock then
                 (case collectRanges BC (blocks BF) 3 bb StartIdx SeqLen of
                    None \<Rightarrow> BF
                  | Some blockRanges \<Rightarrow>
                      (let StartBB = fst (hd blockRanges); startIdx = snd (hd blockRanges);
                           SIs = insts (blocks BF ! StartBB)
                       in if leaf then
                            (let withCall = sandwichAt BC CallInst startIdx SIs;
                                 startBBRemaining = sizeSub (sizeSub (length withCall) startIdx) 3;
                                 startBBToRemove = min startBBRemaining (sizeSub SeqLen 3)
                             in BF\<lparr>blocks := cleanRanges SeqLen (tl blockRanges)
                                  (setInsts (blocks BF) StartBB
                                     (eraseLoop startBBToRemove (startIdx + 3) withCall))\<rparr>)
                          else
                            (let withCall = SIs[startIdx := CallInst];
                                 startBBRemaining = sizeSub (sizeSub (length withCall) startIdx) 1;
                                 startBBToRemove = min startBBRemaining (sizeSub SeqLen 1)
                             in BF\<lparr>blocks := cleanRanges SeqLen (tl blockRanges)
                                  (setInsts (blocks BF) StartBB
                                     (eraseLoop startBBToRemove (startIdx + 1) withCall))\<rparr>)))
               else if leaf then
                 BF\<lparr>blocks := setInsts (blocks BF) bb
                    (if SeqLen > 1
                     then eraseLoop (SeqLen - 1) (StartIdx + 3) (sandwichAt BC CallInst StartIdx Is)
                     else sandwichAt BC CallInst StartIdx Is)\<rparr>
               else
                 BF\<lparr>blocks := setInsts (blocks BF) bb
                    (if SeqLen > 1
                     then eraseLoop (SeqLen - 1) (StartIdx + 1) (Is[StartIdx := CallInst])
                     else Is[StartIdx := CallInst])\<rparr>))"

section \<open>Shrinking and the intermediate simplifier\<close>

fun firstIndex :: "('a \<Rightarrow> bool) \<Rightarrow> 'a list \<Rightarrow> nat \<Rightarrow> nat option" where
  "firstIndex P [] i = None"
| "firstIndex P (x # xs) i = (if P x then Some i else firstIndex P xs (Suc i))"

definition shrinkBlock :: "host \<Rightarrow> block \<Rightarrow> block" where
  "shrinkBlock BC BB =
     (let Is = (case insts BB of
                  [] \<Rightarrow> []
                | I # rest \<Rightarrow> if opcode I = 1696 then rest else I # rest)
      in case firstIndex (MIB_isReturn BC) Is 0 of
           None \<Rightarrow> BB\<lparr>insts := Is\<rparr>
         | Some ri \<Rightarrow>
             if ri \<noteq> 0 \<and> opcode (Is ! (ri - 1)) = 1697
             then BB\<lparr>insts := take (ri - 1) Is @ drop ri Is\<rparr>
             else BB\<lparr>insts := Is\<rparr>)"

text \<open>\<^verbatim>\<open>funcShrinking\<close>: when the function has no call other than tail calls, drop a
  leading instruction with opcode 1696 and an instruction with opcode 1697 before the
  first return of each block.\<close>

definition funcShrinking :: "host \<Rightarrow> bfunction \<Rightarrow> bfunction" where
  "funcShrinking BC outlinedFunc =
     (if blocks outlinedFunc = [] then outlinedFunc
      else if \<not> isAArch64 BC then outlinedFunc
      else if list_ex (\<lambda>BB. list_ex (\<lambda>I. MIB_isCall BC I \<and> \<not> MIB_isTailCall BC I) (insts BB))
                (blocks outlinedFunc)
      then outlinedFunc
      else outlinedFunc\<lparr>blocks := map (shrinkBlock BC) (blocks outlinedFunc)\<rparr>)"

definition isStackAdjust :: "host \<Rightarrow> inst \<Rightarrow> bool" where
  "isStackAdjust BC I =
     (let InstNameLower = lower (getOpcodeName BC (opcode I)) in
      (starts_with InstNameLower ''add'' \<or> starts_with InstNameLower ''sub'') \<and>
      str_contains InstNameLower ''sp'' \<and>
      list_ex (\<lambda>Op. Op = Reg (getStackPointer BC))
        (take (getNumDefs BC (opcode I)) (operands I)))"

text \<open>The scan of \<^verbatim>\<open>isPureCallSequence\<close>: \<open>None\<close> once an instruction other than a
  push, pop, return, call or stack adjustment is met, else whether a call was seen.\<close>

fun pureCallScan :: "host \<Rightarrow> inst list \<Rightarrow> bool \<Rightarrow> bool option" where
  "pureCallScan BC [] hasCall = Some hasCall"
| "pureCallScan BC (I # Is) hasCall =
     (if MIB_isPush BC I \<or> MIB_isPop BC I \<or> MIB_isReturn BC I then pureCallScan BC Is hasCall
      else if MIB_isCall BC I then pureCallScan BC Is True
      else if isStackAdjust BC I then pureCallScan BC Is hasCall
      else None)"

definition isPureCallSequence :: "host \<Rightarrow> bfunction \<Rightarrow> bool" where
  "isPureCallSequence BC BF =
     (if blocks BF = [] then False
      else case pureCallScan BC (concat (map insts (blocks BF))) False of
             Some hasCall \<Rightarrow> hasCall
           | None \<Rightarrow> False)"

definition callTargets :: "host \<Rightarrow> bfunction \<Rightarrow> symbol list" where
  "callTargets BC BF =
     concat (map (\<lambda>I. if MIB_isCall BC I \<and> \<not> MIB_isIndirectCall BC I
                      then (case findTargetSymbol BC (operands I) of
                              Some t \<Rightarrow> [t] | None \<Rightarrow> [])
                      else [])
               (concat (map insts (blocks BF))))"

fun refersTo :: "host \<Rightarrow> symbol \<Rightarrow> operand \<Rightarrow> bool" where
  "refersTo BC s (Expr e) = (exprSymbol BC e = Some s)"
| "refersTo BC s x = False"

definition callsSymbol :: "host \<Rightarrow> symbol \<Rightarrow> inst \<Rightarrow> bool" where
  "callsSymbol BC s I =
     (MIB_isCall BC I \<and> \<not> MIB_isIndirectCall BC I \<and> list_ex (refersTo BC s) (operands I))"

definition redirectCalls :: "host \<Rightarrow> symbol \<Rightarrow> symbol \<Rightarrow> bfunction \<Rightarrow> bfunction" where
  "redirectCalls BC s TargetFunc BF =
     BF\<lparr>blocks := map (\<lambda>BB. BB\<lparr>insts := map (\<lambda>I. if callsSymbol BC s I
                                                   then createCall BC TargetFunc else I)
                                          (insts BB)\<rparr>) (blocks BF)\<rparr>"

section \<open>The pass driver\<close>

text \<open>
  The state of a run: the functions of the binary (\<^verbatim>\<open>BC.getBinaryFunctions()\<close>, in
  iteration order), the functions created through
  \<^verbatim>\<open>BC.createInjectedBinaryFunction\<close>, the static counter of \<^verbatim>\<open>createFunction\<close> and
  the precomputed set \<^verbatim>\<open>InHotFuncs\<close> (indices into the functions).
\<close>

record pstate =
  binaryFunctions :: "bfunction list"
  injected :: "bfunction list"
  OutlinedFunctionCount :: nat
  InHotFuncs :: "nat list"

datatype error = Error string

definition isHotFunction :: "bfunction \<Rightarrow> bool" where
  "isHotFunction BF =
     (\<not> (blocks BF = [] \<or> \<not> optimizable BF) \<and> fHasProfile BF \<and> fExecCount BF > 1)"

definition computeHotFuncs :: "config \<Rightarrow> bfunction list \<Rightarrow> nat list" where
  "computeHotFuncs cfg fs =
     (if EnablePGO cfg then filter (\<lambda>k. isHotFunction (fs ! k)) [0 ..< length fs] else [])"

text \<open>The order in which the locations are rewritten: by block pointer, and within a
  block from the highest start index down.\<close>

definition locBefore :: "bfunction \<Rightarrow> location \<Rightarrow> location \<Rightarrow> bool" where
  "locBefore BF a b =
     (if fst a \<noteq> fst b then bbAddr (blocks BF ! fst a) < bbAddr (blocks BF ! fst b)
      else snd a > snd b)"

fun insertLoc :: "bfunction \<Rightarrow> location \<Rightarrow> location list \<Rightarrow> location list" where
  "insertLoc BF a [] = [a]"
| "insertLoc BF a (b # bs) = (if locBefore BF b a then b # insertLoc BF a bs else a # b # bs)"

definition sortLocations :: "bfunction \<Rightarrow> location list \<Rightarrow> location list" where
  "sortLocations BF locs = foldr (insertLoc BF) locs []"

text \<open>The body of the loop over the anchors \<open>i\<close>, for the function with index \<open>fi\<close>.
  \<open>outl\<close> is \<^verbatim>\<open>outlinedFunctions\<close> (indices into the injected functions).\<close>

definition processAnchor ::
  "host \<Rightarrow> config \<Rightarrow> nat \<Rightarrow> int \<Rightarrow> inst list list \<Rightarrow> nat \<Rightarrow> pstate \<times> nat list \<times> nat list \<Rightarrow>
     pstate \<times> nat list \<times> nat list" where
  "processAnchor BC cfg fi len seqs i s =
     (case s of (st, Labeled, outl) \<Rightarrow>
      case groupAnchor BC seqs i Labeled of (Labeled', CurrentMatches, Frequency) \<Rightarrow>
      let BF = binaryFunctions st ! fi;
          locations = findSequenceLocations BC BF (seqs ! i)
      in if locations = [] then (st, Labeled', outl)
         else if length locations < nat (Frequency div 2) then (st, Labeled', outl)
         else if admitted (decide BC (EnablePGO cfg) BF len (seqs ! i) locations) then
           (case createFunction BC (OutlinedFunctionCount st) (seqs ! i) of
              (None, count) \<Rightarrow> (st\<lparr>OutlinedFunctionCount := count\<rparr>, Labeled', outl)
            | (Some outlinedFunc, count) \<Rightarrow>
                (let NeedsSandwich =
                       list_ex (\<lambda>Loc. IsCallerLeaf BC BF (fst Loc) (snd Loc)) locations;
                     managed = stackFrameManage BC outlinedFunc NeedsSandwich;
                     BF' = foldl (\<lambda>F Loc. replaceSequenceWithCall BC F Loc (length (seqs ! i))
                                            (fname managed))
                             BF (sortLocations BF locations)
                 in (st\<lparr>binaryFunctions := (binaryFunctions st)[fi := BF'],
                        injected := injected st @ [managed],
                        OutlinedFunctionCount := count\<rparr>,
                     Labeled', outl @ [length (injected st)])))
         else (st, Labeled', outl))"

text \<open>One function at one length: the gate of the driver, the extraction and the loop
  over the anchors. Neither \<^verbatim>\<open>isOutlinedFunc\<close> nor \<^verbatim>\<open>InHotFuncs\<close> is read here; the
  source computes both and uses neither.\<close>

text \<open>\<^verbatim>\<open>filterHotFuncs\<close> returns at once and leaves the windows as they are.\<close>

definition filterHotFuncs :: "inst list list \<Rightarrow> bfunction \<Rightarrow> inst list list" where
  "filterHotFuncs seqs BF = seqs"

definition sweepFunction ::
  "host \<Rightarrow> config \<Rightarrow> int \<Rightarrow> pstate \<times> nat list \<Rightarrow> nat \<Rightarrow> pstate \<times> nat list" where
  "sweepFunction BC cfg len s fi =
     (case s of (st, outl) \<Rightarrow>
      let BF = binaryFunctions st ! fi in
      if blocks BF = [] \<or> \<not> optimizable BF then (st, outl)
      else
        (let seqs0 = getAllseqs BC cfg BF len;
             seqs = (if EnablePGO cfg then filterHotFuncs seqs0 BF else seqs0) in
         case foldl (\<lambda>a i. processAnchor BC cfg fi len seqs i a) (st, [], outl)
                [0 ..< length seqs] of
           (st', Labeled, outl') \<Rightarrow> (st', outl')))"

definition sweepLength :: "host \<Rightarrow> config \<Rightarrow> pstate \<times> nat list \<Rightarrow> int \<Rightarrow> pstate \<times> nat list"
  where
  "sweepLength BC cfg s len =
     foldl (sweepFunction BC cfg len) s [0 ..< length (binaryFunctions (fst s))]"

text \<open>The lengths of the sweep: \<^verbatim>\<open>for (len = LargestLength; len >= minLength; len--)\<close>.\<close>

definition sweepLengths :: "config \<Rightarrow> int list" where
  "sweepLengths cfg =
     map (\<lambda>k. LargestLength cfg - int k) [0 ..< nat (LargestLength cfg - MinLength cfg + 1)]"

text \<open>One step of \<^verbatim>\<open>removeRedundantIntermediateFunctions\<close>, for the outlined function
  with index \<open>k\<close>; the second component collects \<^verbatim>\<open>functionsToRemove\<close>.\<close>

definition removeStep :: "host \<Rightarrow> pstate \<times> nat list \<Rightarrow> nat \<Rightarrow> pstate \<times> nat list" where
  "removeStep BC s k =
     (case s of (st, functionsToRemove) \<Rightarrow>
      let outlinedFunc = injected st ! k in
      if blocks outlinedFunc = [] then s
      else if \<not> starts_with (fname outlinedFunc) ''PLO_outlined_'' \<and> \<not> isInjected outlinedFunc
      then s
      else if \<not> isPureCallSequence BC outlinedFunc then s
      else
        (let calledFunctions = callTargets BC outlinedFunc in
         if calledFunctions = [] then s
         else if \<not> list_ex (\<lambda>BF. list_ex (\<lambda>BB. list_ex (callsSymbol BC (fname outlinedFunc))
                                                  (insts BB)) (blocks BF)) (binaryFunctions st)
         then s
         else if length calledFunctions = 1 then
           (st\<lparr>binaryFunctions := map (redirectCalls BC (fname outlinedFunc) (hd calledFunctions))
                               (binaryFunctions st)\<rparr>,
            functionsToRemove @ [k])
         else s))"

definition removeRedundantIntermediateFunctions :: "host \<Rightarrow> pstate \<Rightarrow> nat list \<Rightarrow> pstate" where
  "removeRedundantIntermediateFunctions BC st outl =
     (case foldl (removeStep BC) (st, []) outl of
        (st', functionsToRemove) \<Rightarrow>
          st'\<lparr>injected := foldl (\<lambda>fs k. fs[k := (fs ! k)\<lparr>isIgnored := True\<rparr>]) (injected st')
                             functionsToRemove\<rparr>)"

text \<open>\<^verbatim>\<open>runOnFunctions\<close>. Its only return statement is \<^verbatim>\<open>return Error::success()\<close>.\<close>

definition runOnFunctions :: "host \<Rightarrow> config \<Rightarrow> pstate \<Rightarrow> error + pstate" where
  "runOnFunctions BC cfg st =
     (let st0 = st\<lparr>InHotFuncs := computeHotFuncs cfg (binaryFunctions st)\<rparr> in
      case foldl (sweepLength BC cfg) (st0, []) (sweepLengths cfg) of
        (st1, outl) \<Rightarrow>
          (let st2 = st1\<lparr>injected :=
                         foldl (\<lambda>fs k. fs[k := funcShrinking BC (fs ! k)]) (injected st1) outl\<rparr>
           in Inr (removeRedundantIntermediateFunctions BC st2 outl)))"

section \<open>A small AArch64 host\<close>

text \<open>
  A concrete host used to run the definitions on examples: a handful of opcodes with
  their LLVM-style names, X29 as frame pointer, X30 as link register (the fallback of
  \<^verbatim>\<open>getLinkRegister\<close>) and register 31 as stack pointer.
\<close>

definition demoName :: "opc \<Rightarrow> string" where
  "demoName oc =
     (if oc = 1 then ''MOVZXi'' else if oc = 2 then ''ADDXrr''
      else if oc = 3 then ''LDRXui'' else if oc = 4 then ''STRXui''
      else if oc = 5 then ''BL'' else if oc = 6 then ''RET''
      else if oc = 7 then ''Bcc'' else if oc = 8 then ''B''
      else if oc = 9 then ''STPXpre'' else if oc = 10 then ''LDPXpost''
      else if oc = 11 then ''BLR'' else if oc = 12 then ''LSLXri''
      else if oc = 13 then ''ADDXri'' else if oc = 14 then ''LDRWui''
      else if oc = 16 then ''STPXi''
      else ''NOP'')"

definition demoExprSymbol :: "nat \<Rightarrow> symbol option" where
  "demoExprSymbol a = (if a = 1 then Some ''foo'' else if a = 2 then Some ''bar'' else None)"

definition demoSymbolRefExpr :: "symbol \<Rightarrow> nat" where
  "demoSymbolRefExpr s = (if s = ''foo'' then 1 else if s = ''bar'' then 2 else 0)"

definition demoHost :: host where
  "demoHost = \<lparr>
     isAArch64 = True,
     MIB_isPseudo = (\<lambda>I. False),
     MIB_isCFI = (\<lambda>I. False),
     MIB_isReturn = (\<lambda>I. opcode I = 6),
     MIA_isReturn = (\<lambda>I. opcode I = 6),
     MIB_isCall = (\<lambda>I. opcode I = 5 \<or> opcode I = 11),
     MIA_isCall = (\<lambda>I. opcode I = 5 \<or> opcode I = 11),
     MIB_isIndirectCall = (\<lambda>I. opcode I = 11),
     MIB_isTailCall = (\<lambda>I. False),
     MIA_isBranch = (\<lambda>I. opcode I = 7 \<or> opcode I = 8),
     MIB_isUnconditionalBranch = (\<lambda>I. opcode I = 8),
     MIA_isTerminator = (\<lambda>I. opcode I = 6 \<or> opcode I = 7 \<or> opcode I = 8),
     MIB_isPush = (\<lambda>I. opcode I = 9),
     MIB_isPop = (\<lambda>I. opcode I = 10),
     mayLoad = (\<lambda>oc. oc = 3 \<or> oc = 10 \<or> oc = 14),
     mayStore = (\<lambda>oc. oc = 4 \<or> oc = 9 \<or> oc = 16),
     getNumDefs = (\<lambda>oc. if oc = 4 \<or> oc = 5 \<or> oc = 6 \<or> oc = 7 \<or> oc = 8 \<or> oc = 11 \<or> oc = 16
                         then 0 else 1),
     getOpcodeName = demoName,
     getStackPointer = 31,
     getFramePointer = 29,
     isSubRegisterEq = (\<lambda>a b. a = b),
     regNames = [],
     exprSymbol = demoExprSymbol,
     createSymbolRefExpr = demoSymbolRefExpr,
     createCall = (\<lambda>s. \<lparr>opcode = 5, operands = [Expr (demoSymbolRefExpr s)]\<rparr>),
     createUncondBranch = (\<lambda>s. \<lparr>opcode = 8, operands = [Expr (demoSymbolRefExpr s)]\<rparr>),
     createReturn = \<lparr>opcode = 6, operands = []\<rparr>,
     createPushRegisters =
       (\<lambda>a b. \<lparr>opcode = 9, operands = [Reg 31, Reg a, Reg b, Reg 31, Imm (- 2)]\<rparr>),
     createPopRegisters =
       (\<lambda>a b. \<lparr>opcode = 10, operands = [Reg 31, Reg a, Reg b, Reg 31, Imm 2]\<rparr>),
     hashSFPImm = ucast
   \<rparr>"

text \<open>The same host on another architecture.\<close>

definition otherHost :: host where
  "otherHost = demoHost\<lparr>isAArch64 := False\<rparr>"

definition mkInst :: "opc \<Rightarrow> operand list \<Rightarrow> inst" where
  "mkInst oc ops = \<lparr>opcode = oc, operands = ops\<rparr>"


text \<open>A synthesized body \<^verbatim>\<open>ldr x0, [sp, #1]; blr x8; ret\<close> and one ending in a direct
  call, \<^verbatim>\<open>mov x0, #1; bl foo; ret\<close>.\<close>

definition mkBlock :: "inst list \<Rightarrow> block" where
  "mkBlock Is = \<lparr>insts = Is, succs = [], bbHasProfile = False, bbExecCount = 0, bbAddr = 0\<rparr>"

definition mkOutlined :: "inst list \<Rightarrow> bfunction" where
  "mkOutlined Is =
     \<lparr>fname = ''PLO_outlined_1'', blocks = [mkBlock Is], isInjected = True,
      hasEHRanges = False, fHasProfile = False, fExecCount = 0, optimizable = False,
      isIgnored = False\<rparr>"

definition indirectBody :: "inst list" where
  "indirectBody = [mkInst 3 [Reg 0, Reg 31, Imm 1], mkInst 11 [Reg 8], mkInst 6 []]"

definition directBody :: "inst list" where
  "directBody = [mkInst 1 [Reg 0, Imm 1], mkInst 5 [Expr 1], mkInst 6 []]"

text \<open>
  A program of one function with one block: \<^verbatim>\<open>stp x0, x30, [sp]\<close>, three
  copies of \<^verbatim>\<open>mov x1, #1; add x2, x1, x1\<close> separated by other moves, and a call.
\<close>

definition demoInsts :: "inst list" where
  "demoInsts =
     [mkInst 16 [Reg 0, Reg 30, Reg 31, Imm 0],
      mkInst 1 [Reg 1, Imm 1], mkInst 2 [Reg 2, Reg 1, Reg 1], mkInst 1 [Reg 3, Imm 7],
      mkInst 1 [Reg 1, Imm 1], mkInst 2 [Reg 2, Reg 1, Reg 1], mkInst 1 [Reg 4, Imm 9],
      mkInst 1 [Reg 1, Imm 1], mkInst 2 [Reg 2, Reg 1, Reg 1],
      mkInst 5 [Expr 1]]"

definition demoFunction :: bfunction where
  "demoFunction =
     \<lparr>fname = ''main'', blocks = [mkBlock demoInsts], isInjected = False,
      hasEHRanges = False, fHasProfile = False, fExecCount = 0, optimizable = True,
      isIgnored = False\<rparr>"

definition demoProgram :: pstate where
  "demoProgram =
     \<lparr>binaryFunctions = [demoFunction], injected = [], OutlinedFunctionCount = 0, InHotFuncs = []\<rparr>"

definition demoConfig :: config where
  "demoConfig = \<lparr>LargestLength = 2, EnablePGO = False, MinLength = 2\<rparr>"

text \<open>The same function with a profile: executed 100 times, its block once.\<close>

definition hotFunction :: bfunction where
  "hotFunction =
     demoFunction\<lparr>fHasProfile := True, fExecCount := 100,
       blocks := [(mkBlock demoInsts)\<lparr>bbHasProfile := True, bbExecCount := 1\<rparr>]\<rparr>"

definition pgoConfig :: config where
  "pgoConfig = \<lparr>LargestLength = 2, EnablePGO = True, MinLength = 2\<rparr>"

text \<open>
  A function of two blocks with a profile: the first block (executed once) saves LR and
  holds the window \<^verbatim>\<open>mov x1, #1; add x2, x1, x1\<close>, the second (executed 4294967295
  times) holds it again.
\<close>

definition busyFunction :: bfunction where
  "busyFunction =
     demoFunction\<lparr>fHasProfile := True, fExecCount := 1,
       blocks :=
         [\<lparr>insts = [mkInst 16 [Reg 0, Reg 30, Reg 31, Imm 0], mkInst 1 [Reg 1, Imm 1],
                    mkInst 2 [Reg 2, Reg 1, Reg 1], mkInst 1 [Reg 3, Imm 7]],
           succs = [1], bbHasProfile = True, bbExecCount = 1, bbAddr = 0\<rparr>,
          \<lparr>insts = [mkInst 1 [Reg 1, Imm 1], mkInst 2 [Reg 2, Reg 1, Reg 1],
                    mkInst 5 [Expr 1]],
           succs = [], bbHasProfile = True, bbExecCount = 4294967295, bbAddr = 1\<rparr>]\<rparr>"

definition demoWindow :: "inst list" where
  "demoWindow = [mkInst 1 [Reg 1, Imm 1], mkInst 2 [Reg 2, Reg 1, Reg 1]]"

text \<open>A location follows a return: an earlier block holds one, or its own block holds
  one before the start index.\<close>

definition afterReturn :: "host \<Rightarrow> bfunction \<Rightarrow> nat \<Rightarrow> nat \<Rightarrow> bool" where
  "afterReturn BC BF bb StartIndex =
     (list_ex (\<lambda>k. list_ex (MIA_isReturn BC) (insts (blocks BF ! k))) [0 ..< bb] \<or>
      list_ex (MIA_isReturn BC) (take StartIndex (insts (blocks BF ! bb))))"

text \<open>
  A function that holds no call: two blocks, each with the same window of eight
  instructions, the second closed by a return. The sweep runs at length 8.
\<close>

definition leafWindow :: "inst list" where
  "leafWindow =
     [mkInst 1 [Reg 1, Imm 1], mkInst 1 [Reg 2, Imm 2], mkInst 1 [Reg 3, Imm 3],
      mkInst 1 [Reg 4, Imm 4], mkInst 1 [Reg 5, Imm 5], mkInst 1 [Reg 6, Imm 6],
      mkInst 1 [Reg 7, Imm 7], mkInst 2 [Reg 0, Reg 1, Reg 2]]"

definition leafFunction :: bfunction where
  "leafFunction =
     demoFunction\<lparr>blocks :=
       [\<lparr>insts = leafWindow, succs = [1], bbHasProfile = False, bbExecCount = 0, bbAddr = 0\<rparr>,
        \<lparr>insts = leafWindow @ [mkInst 6 []], succs = [], bbHasProfile = False,
          bbExecCount = 0, bbAddr = 1\<rparr>]\<rparr>"

definition leafConfig :: config where
  "leafConfig = \<lparr>LargestLength = 8, EnablePGO = False, MinLength = 8\<rparr>"

text \<open>
  A host with four expression objects: 11 and 13 refer to the symbol \<^verbatim>\<open>str\<close>, 12 and 14
  to \<^verbatim>\<open>foo\<close>. The block holds \<^verbatim>\<open>add x0, x0, :lo12:str; bl foo\<close> twice, each copy with
  expression objects of its own.
\<close>

definition copyHost :: host where
  "copyHost =
     demoHost\<lparr>exprSymbol :=
       (\<lambda>a. if a = 11 \<or> a = 13 then Some ''str''
            else if a = 12 \<or> a = 14 then Some ''foo'' else None)\<rparr>"

definition copyFunction :: bfunction where
  "copyFunction =
     demoFunction\<lparr>blocks :=
       [mkBlock [mkInst 13 [Reg 0, Reg 0, Expr 11, Imm 0], mkInst 5 [Expr 12],
                 mkInst 1 [Reg 9, Imm 9],
                 mkInst 13 [Reg 0, Reg 0, Expr 13, Imm 0], mkInst 5 [Expr 14]]]\<rparr>"


section \<open>Properties\<close>

subsection \<open>Branches in the window reject predicate\<close>

lemma shouldReject_branch:
  assumes "MIA_isBranch BC I" and "\<not> MIB_isCall BC I"
    and "opcode I \<noteq> 0" and "\<not> MIB_isPseudo BC I" and "\<not> MIB_isCFI BC I"
    and "\<not> MIB_isReturn BC I"
  shows "shouldRejectInstruction BC I len allowBranch isLast BB s k =
           (if isLast \<and> \<not> MIB_isUnconditionalBranch BC I then Some 0 else Some 2)"
  using assms by (simp add: shouldRejectInstruction_def)

text \<open>
  Claim C2, as the source has it. For an instruction that reaches the branch test (a
  real instruction that is neither a return nor a call): an unconditional branch is
  rejected at every position, and a conditional branch is accepted exactly when it is
  the last instruction of the window. The argument \<open>allowBranch\<close> plays no part: the
  result is the same for both of its values.
\<close>

theorem C2_branch_reject:
  assumes "MIA_isBranch BC I" and "\<not> MIB_isCall BC I"
    and "opcode I \<noteq> 0" and "\<not> MIB_isPseudo BC I" and "\<not> MIB_isCFI BC I"
    and "\<not> MIB_isReturn BC I"
  shows "(MIB_isUnconditionalBranch BC I \<longrightarrow>
            shouldRejectInstruction BC I len allowBranch isLast BB s k = Some 2) \<and>
         (\<not> MIB_isUnconditionalBranch BC I \<longrightarrow>
            (shouldRejectInstruction BC I len allowBranch isLast BB s k = Some 0
               \<longleftrightarrow> isLast)) \<and>
         shouldRejectInstruction BC I len allowBranch isLast BB s k =
           shouldRejectInstruction BC I len (\<not> allowBranch) isLast BB s k"
  using assms by (simp add: shouldReject_branch)

text \<open>The instance of C2 at \<^verbatim>\<open>b.cc\<close> as the last instruction of a window of two,
  in a single block (\<open>allowBranch = False\<close>).\<close>

theorem C2_branch_reject_witness:
  "MIA_isBranch demoHost (mkInst 7 [Imm 0, Expr 1]) \<and>
   \<not> MIB_isCall demoHost (mkInst 7 [Imm 0, Expr 1]) \<and>
   shouldRejectInstruction demoHost (mkInst 7 [Imm 0, Expr 1]) 2 False True
      [mkInst 1 [Reg 0, Imm 1], mkInst 7 [Imm 0, Expr 1]] 0 1 = Some 0 \<and>
   shouldRejectInstruction demoHost (mkInst 7 [Imm 0, Expr 1]) 2 False True
      [mkInst 1 [Reg 0, Imm 1], mkInst 7 [Imm 0, Expr 1]] 0 1 =
   shouldRejectInstruction demoHost (mkInst 7 [Imm 0, Expr 1]) 2 True True
      [mkInst 1 [Reg 0, Imm 1], mkInst 7 [Imm 0, Expr 1]] 0 1"
proof -
  let ?I = "mkInst 7 [Imm 0, Expr 1]"
  have a: "MIA_isBranch demoHost ?I" by (simp add: demoHost_def mkInst_def)
  have b: "\<not> MIB_isCall demoHost ?I" by (simp add: demoHost_def mkInst_def)
  have c: "opcode ?I \<noteq> 0" by (simp add: mkInst_def)
  have d: "\<not> MIB_isPseudo demoHost ?I" by (simp add: demoHost_def)
  have e: "\<not> MIB_isCFI demoHost ?I" by (simp add: demoHost_def)
  have f: "\<not> MIB_isReturn demoHost ?I" by (simp add: demoHost_def mkInst_def)
  have g: "\<not> MIB_isUnconditionalBranch demoHost ?I" by (simp add: demoHost_def mkInst_def)
  note h = C2_branch_reject [OF a b c d e f, of 2 False True
      "[mkInst 1 [Reg 0, Imm 1], mkInst 7 [Imm 0, Expr 1]]" 0 1]
  from h g have "shouldRejectInstruction demoHost ?I 2 False True
      [mkInst 1 [Reg 0, Imm 1], mkInst 7 [Imm 0, Expr 1]] 0 1 = Some 0"
    by blast
  moreover from h have "shouldRejectInstruction demoHost ?I 2 False True
      [mkInst 1 [Reg 0, Imm 1], mkInst 7 [Imm 0, Expr 1]] 0 1 =
    shouldRejectInstruction demoHost ?I 2 True True
      [mkInst 1 [Reg 0, Imm 1], mkInst 7 [Imm 0, Expr 1]] 0 1"
    by simp
  ultimately show ?thesis using a b by blast
qed

text \<open>
  The claim as written says that a conditional branch in the last position of a window
  taken without cross-block permission is rejected. The source accepts it: reason 0.
\<close>

theorem C2_counterexample:
  "shouldRejectInstruction demoHost (mkInst 7 [Imm 0, Expr 1]) 2 False True
      [mkInst 1 [Reg 0, Imm 1], mkInst 7 [Imm 0, Expr 1]] 0 1 = Some 0"
  by (simp add: shouldRejectInstruction_def demoHost_def mkInst_def)


subsection \<open>The fingerprint: renaming and the stream of the specification\<close>


























subsection \<open>Overlap and grouping\<close>

lemma sameOperand_iff: "sameKind x y \<and> sameValue x y \<longleftrightarrow> x = y"
  by (cases x; cases y) (simp_all add: sameKind_def)

lemma operandsEqual_iff: "length xs = length ys \<Longrightarrow> operandsEqual xs ys \<longleftrightarrow> xs = ys"
proof (induction xs ys rule: list_induct2)
  case Nil
  then show ?case by simp
next
  case (Cons x xs y ys)
  then show ?case using sameOperand_iff [of x y] by auto
qed

lemma areInstructionsEqual_iff: "areInstructionsEqual I J \<longleftrightarrow> I = J"
proof (cases "opcode I = opcode J \<and> length (operands I) = length (operands J)")
  case True
  then show ?thesis
    using operandsEqual_iff [of "operands I" "operands J"]
    by (auto simp: areInstructionsEqual_def inst.equality)
next
  case False
  then show ?thesis by (auto simp: areInstructionsEqual_def)
qed

lemma hasOverlapped_iff: "hasOverlappedInstrs s1 s2 \<longleftrightarrow> (\<exists>I \<in> set s1. I \<in> set s2)"
  by (auto simp: hasOverlappedInstrs_def list_ex_iff areInstructionsEqual_iff)

lemma sameText_plain: "sameText BC x y \<Longrightarrow> \<not> isExpr x \<Longrightarrow> y = x"
  by (cases x; cases y) simp_all

lemma sameText_kind: "sameText BC x y \<Longrightarrow> isExpr x \<Longrightarrow> isExpr y"
  by (cases x; cases y) simp_all

lemma sameText_operands:
  "list_all2 (sameText BC) xs ys \<Longrightarrow> \<not> list_ex isExpr xs \<Longrightarrow> ys = xs"
  by (induction rule: list_all2_induct) (auto dest: sameText_plain)

lemma textualCopy_plain:
  assumes "textualCopy BC W W'" and "I \<in> set W" and "\<not> list_ex isExpr (operands I)"
  shows "I \<in> set W'"
proof -
  from assms(2) obtain k where k: "k < length W" "W ! k = I" by (auto simp: in_set_conv_nth)
  from assms(1) have l: "length W = length W'"
    and p: "opcode (W ! k) = opcode (W' ! k) \<and>
            list_all2 (sameText BC) (operands (W ! k)) (operands (W' ! k))"
    using k(1) unfolding textualCopy_def by (auto simp: list_all2_conv_all_nth)
  from sameText_operands [of BC "operands I" "operands (W' ! k)"] p k(2) assms(3)
  have "operands (W' ! k) = operands I" by simp
  with p k(2) have "W' ! k = I" by (simp add: inst.equality)
  with k(1) l show ?thesis by (metis nth_mem)
qed

lemma hashOperands_text:
  "list_all2 (sameText BC) xs ys \<Longrightarrow> hashOperands BC ys h m n = hashOperands BC xs h m n"
proof (induction arbitrary: h m n rule: list_all2_induct)
  case Nil
  then show ?case by simp
next
  case (Cons x xs y ys)
  show ?case
  proof (cases x)
    case (Expr a)
    with Cons(1) obtain b where "y = Expr b" by (cases y) simp_all
    with Expr Cons(3) show ?thesis by simp
  next
    case (Reg r)
    with Cons(1) have "y = x" by (cases y) simp_all
    with Cons(3) Reg show ?thesis by (simp add: split_beta)
  next
    case (Imm v)
    with Cons(1) have "y = x" by (cases y) simp_all
    with Cons(3) Imm show ?thesis by simp
  next
    case (SFPImm f)
    with Cons(1) have "y = x" by (cases y) simp_all
    with Cons(3) SFPImm show ?thesis by simp
  qed
qed

lemma hashInsts_text:
  "textualCopy BC W W' \<Longrightarrow> hashInsts BC W' h m n = hashInsts BC W h m n"
  unfolding textualCopy_def
proof (induction arbitrary: h m n rule: list_all2_induct)
  case Nil
  then show ?case by simp
next
  case (Cons I W J W')
  from Cons(1) have o: "opcode J = opcode I" by simp
  from Cons(1) hashOperands_text [of BC "operands I" "operands J"]
  have "hashOperands BC (operands J) (fnv h (ucast (opcode I))) m n =
        hashOperands BC (operands I) (fnv h (ucast (opcode I))) m n" by simp
  with o Cons(3) show ?case by (simp add: split_beta)
qed

lemma getHash_text: "textualCopy BC W W' \<Longrightarrow> getHash BC W' = getHash BC W"
  unfolding getHash_def by (rule hashInsts_text)

lemma groupLoop_matches:
  "groupLoop BC seqs i js (L, M, F) = (L', M', F') \<Longrightarrow>
   set M' \<subseteq> set M \<union> {j \<in> set js. \<not> hasOverlappedInstrs (seqs ! i) (seqs ! j)}"
proof (induction js arbitrary: L M F)
  case Nil
  then show ?case by simp
next
  case (Cons j js)
  show ?case
  proof (cases "hasOverlappedInstrs (seqs ! i) (seqs ! j)")
    case True
    with Cons.prems have "groupLoop BC seqs i js (L, M, F) = (L', M', F')" by simp
    from Cons.IH [OF this] show ?thesis by auto
  next
    case False
    show ?thesis
    proof (cases "sequencesMatch BC (seqs ! i) (seqs ! j) \<and> j \<notin> set L \<and>
                  \<not> list_ex (\<lambda>a. hasOverlappedInstrs (seqs ! a) (seqs ! j)) M")
      case True
      with False Cons.prems
      have "groupLoop BC seqs i js (j # L, M @ [j], F + 1) = (L', M', F')" by simp
      from Cons.IH [OF this] False show ?thesis by auto
    next
      case b: False
      with False Cons.prems have "groupLoop BC seqs i js (L, M, F) = (L', M', F')"
        by (auto split: if_splits)
      from Cons.IH [OF this] show ?thesis by auto
    qed
  qed
qed

lemma groupLoop_frequency:
  "groupLoop BC seqs i js (L, M, F) = (L', M', F') \<Longrightarrow>
   F' - int (length M') = F - int (length M)"
proof (induction js arbitrary: L M F)
  case Nil
  then show ?case by simp
next
  case (Cons j js)
  show ?case
  proof (cases "\<not> hasOverlappedInstrs (seqs ! i) (seqs ! j) \<and>
                sequencesMatch BC (seqs ! i) (seqs ! j) \<and> j \<notin> set L \<and>
                  \<not> list_ex (\<lambda>a. hasOverlappedInstrs (seqs ! a) (seqs ! j)) M")
    case True
    with Cons.prems
    have "groupLoop BC seqs i js (j # L, M @ [j], F + 1) = (L', M', F')" by simp
    from Cons.IH [OF this] show ?thesis by simp
  next
    case False
    with Cons.prems have "groupLoop BC seqs i js (L, M, F) = (L', M', F')"
      by (auto split: if_splits)
    from Cons.IH [OF this] show ?thesis by simp
  qed
qed


text \<open>
  Claim C10, as the source has it. Two instructions are equal for the overlap test
  when they have the same opcode and the same operands, an expression operand being the
  same only when it is the same expression object. Two windows overlap exactly when
  they hold such an equal instruction; so a non-empty window overlaps itself. A later
  window that overlaps the anchor never enters the anchor's match group, and
  \<^verbatim>\<open>Frequency\<close> is the size of the group. A textual copy of the anchor overlaps it as soon
  as one of its instructions has no expression operand; and every textual copy has the
  fingerprint of the anchor and matches it.
\<close>

theorem C10_overlap_by_identity:
  "(hasOverlappedInstrs A B \<longleftrightarrow> (\<exists>I \<in> set A. I \<in> set B)) \<and>
   (s \<noteq> [] \<longrightarrow> hasOverlappedInstrs s s) \<and>
   (i < j \<and> hasOverlappedInstrs (seqs ! i) (seqs ! j) \<longrightarrow>
      j \<notin> set (fst (snd (groupAnchor BC seqs i Labeled)))) \<and>
   snd (snd (groupAnchor BC seqs i Labeled)) =
     int (length (fst (snd (groupAnchor BC seqs i Labeled)))) \<and>
   (textualCopy BC W W' \<and> (\<exists>I \<in> set W. \<not> list_ex isExpr (operands I)) \<longrightarrow>
      hasOverlappedInstrs W W') \<and>
   (textualCopy BC W W' \<longrightarrow> getHash BC W' = getHash BC W \<and> sequencesMatch BC W W')"
proof -
  obtain L' M' F' where
    g: "groupLoop BC seqs i [Suc i ..< length seqs] (i # Labeled, [i], 1) = (L', M', F')"
    by (cases "groupLoop BC seqs i [Suc i ..< length seqs] (i # Labeled, [i], 1)") auto
  have r: "groupAnchor BC seqs i Labeled = (L', M', F')" by (simp add: groupAnchor_def g)
  have f: "F' = int (length M')" using groupLoop_frequency [OF g] by simp
  have m: "i < j \<Longrightarrow> hasOverlappedInstrs (seqs ! i) (seqs ! j) \<Longrightarrow> j \<notin> set M'"
    using groupLoop_matches [OF g] by auto
  have s: "s \<noteq> [] \<Longrightarrow> hasOverlappedInstrs s s"
    unfolding hasOverlapped_iff using hd_in_set by blast
  have t: "textualCopy BC W W' \<Longrightarrow> \<exists>I \<in> set W. \<not> list_ex isExpr (operands I) \<Longrightarrow>
           hasOverlappedInstrs W W'"
    unfolding hasOverlapped_iff using textualCopy_plain by blast
  have h: "textualCopy BC W W' \<Longrightarrow> getHash BC W' = getHash BC W \<and> sequencesMatch BC W W'"
    using getHash_text [of BC W W'] by (simp add: sequencesMatch_def)
  show ?thesis
    unfolding r fst_conv snd_conv using hasOverlapped_iff [of A B] s m f t h by blast
qed

text \<open>C10 at three windows of length two, the last a copy of the first.\<close>

theorem C10_overlap_by_identity_witness:
  "(\<exists>I \<in> set [mkInst 1 [Reg 0, Imm 1], mkInst 2 [Reg 2, Reg 0, Reg 1]].
      I \<in> set [mkInst 1 [Reg 5, Imm 9], mkInst 1 [Reg 0, Imm 1]]) \<and>
   hasOverlappedInstrs [mkInst 1 [Reg 0, Imm 1], mkInst 2 [Reg 2, Reg 0, Reg 1]]
     [mkInst 1 [Reg 5, Imm 9], mkInst 1 [Reg 0, Imm 1]] \<and>
   textualCopy demoHost [mkInst 1 [Reg 0, Imm 1], mkInst 2 [Reg 2, Reg 0, Reg 1]]
     [mkInst 1 [Reg 0, Imm 1], mkInst 2 [Reg 2, Reg 0, Reg 1]] \<and>
   (\<exists>I \<in> set [mkInst 1 [Reg 0, Imm 1], mkInst 2 [Reg 2, Reg 0, Reg 1]].
      \<not> list_ex isExpr (operands I)) \<and>
   hasOverlappedInstrs [mkInst 1 [Reg 0, Imm 1], mkInst 2 [Reg 2, Reg 0, Reg 1]]
     [mkInst 1 [Reg 0, Imm 1], mkInst 2 [Reg 2, Reg 0, Reg 1]] \<and>
   (0 :: nat) < 2 \<and>
   2 \<notin> set (fst (snd (groupAnchor demoHost
     [[mkInst 1 [Reg 0, Imm 1], mkInst 2 [Reg 2, Reg 0, Reg 1]],
      [mkInst 1 [Reg 3, Imm 7], mkInst 2 [Reg 5, Reg 3, Reg 4]],
      [mkInst 1 [Reg 0, Imm 1], mkInst 2 [Reg 2, Reg 0, Reg 1]]] 0 [])))"
proof -
  let ?w = "[mkInst 1 [Reg 0, Imm 1], mkInst 2 [Reg 2, Reg 0, Reg 1]]"
  let ?v = "[mkInst 1 [Reg 5, Imm 9], mkInst 1 [Reg 0, Imm 1]]"
  let ?seqs = "[?w, [mkInst 1 [Reg 3, Imm 7], mkInst 2 [Reg 5, Reg 3, Reg 4]], ?w]"
  have a: "\<exists>I \<in> set ?w. I \<in> set ?v" by simp
  have c: "textualCopy demoHost ?w ?w" by code_simp
  have d: "\<exists>I \<in> set ?w. \<not> list_ex isExpr (operands I)" by code_simp
  have e: "?seqs ! 0 = ?w" "?seqs ! 2 = ?w" by simp_all
  note t = C10_overlap_by_identity [where A = ?w and B = ?v and i = 0 and j = 2
    and seqs = ?seqs and BC = demoHost and Labeled = "[]" and W = ?w and W' = ?w]
  from t a have o1: "hasOverlappedInstrs ?w ?v" by blast
  from t c d have o2: "hasOverlappedInstrs ?w ?w" by blast
  then have "hasOverlappedInstrs (?seqs ! 0) (?seqs ! 2)" by (simp only: e)
  with t have g: "2 \<notin> set (fst (snd (groupAnchor demoHost ?seqs 0 [])))" by simp
  show ?thesis using a o1 c d o2 g by simp
qed

text \<open>
  The claim as written says that an exact textual copy of the anchor always overlaps
  it and is never grouped. The block \<^verbatim>\<open>add x0, x0, :lo12:str; bl foo; mov x9, #9;
  add x0, x0, :lo12:str; bl foo\<close>, in which every expression operand is an object of its
  own, yields three windows of length two; the third is a textual copy of the first,
  does not overlap it, and enters its match group: \<^verbatim>\<open>Frequency\<close> is 2.
\<close>

theorem C10_counterexample:
  "getAllseqs copyHost demoConfig copyFunction 2 =
     [[mkInst 13 [Reg 0, Reg 0, Expr 11, Imm 0], mkInst 5 [Expr 12]],
      [mkInst 1 [Reg 9, Imm 9], mkInst 13 [Reg 0, Reg 0, Expr 13, Imm 0]],
      [mkInst 13 [Reg 0, Reg 0, Expr 13, Imm 0], mkInst 5 [Expr 14]]] \<and>
   textualCopy copyHost [mkInst 13 [Reg 0, Reg 0, Expr 11, Imm 0], mkInst 5 [Expr 12]]
     [mkInst 13 [Reg 0, Reg 0, Expr 13, Imm 0], mkInst 5 [Expr 14]] \<and>
   \<not> hasOverlappedInstrs [mkInst 13 [Reg 0, Reg 0, Expr 11, Imm 0], mkInst 5 [Expr 12]]
     [mkInst 13 [Reg 0, Reg 0, Expr 13, Imm 0], mkInst 5 [Expr 14]] \<and>
   groupAnchor copyHost (getAllseqs copyHost demoConfig copyFunction 2) 0 [] = ([2, 0], [0, 2], 2)"
  by code_simp

subsection \<open>Immediate compatibility\<close>

lemma std_abs_sint:
  assumes "- (2 ^ 63) < sint x"
  shows "sint (std_abs x) = \<bar>sint x\<bar>"
proof (cases "sint x < 0")
  case True
  have u: "sint x < 2 ^ 63" using sint_lt [of x] by simp
  have "sint (- x) = signed_take_bit 63 (- sint x)" by (simp add: sint_word_minus)
  also have "\<dots> = - sint x"
    using assms u by (intro signed_take_bit_int_eq_self) simp_all
  finally show ?thesis using True by (simp add: std_abs_def)
next
  case False
  then show ?thesis by (simp add: std_abs_def)
qed

lemma sint_diff_exact:
  assumes "- (2 ^ 63) \<le> sint a - sint b" "sint a - sint b < 2 ^ 63"
  shows "sint (a - b :: 64 word) = sint a - sint b"
proof -
  have "sint (a - b) = signed_take_bit 63 (sint a - sint b)" by (simp add: sint_word_diff)
  also have "\<dots> = sint a - sint b" using assms by (intro signed_take_bit_int_eq_self) simp_all
  finally show ?thesis .
qed

lemma std_abs_least: "std_abs (- 9223372036854775808) = - 9223372036854775808"
  by (simp add: std_abs_def)

text \<open>
  Where neither the difference nor an absolute value leaves the range of \<^verbatim>\<open>int64_t\<close>,
  and for two instructions that agree on being stack-addressed (a load or store that
  names SP or FP), the predicate is the rule of the specification, with the positions
  \<open>k1\<close> and \<open>k2\<close> that the source compares in the shift case; the driver passes the same
  position twice.
\<close>

lemma areImmediatesCompatible_in_range:
  assumes "k1 < length (operands I1)" and "k2 < length (operands I2)"
    and "operands I1 ! k1 = Imm a" and "operands I2 ! k2 = Imm b"
    and "stackAddressed BC I1 = stackAddressed BC I2"
    and "- (2 ^ 63) < sint a" and "- (2 ^ 63) < sint b"
    and "- (2 ^ 63) < sint a - sint b" and "sint a - sint b < 2 ^ 63"
  shows "areImmediatesCompatible BC I1 I2 k1 k2 \<longleftrightarrow>
           a = b \<or>
           (\<not> stackAddressed BC I1 \<and>
            ((isShiftName (lower (getOpcodeName BC (opcode I1))) \<and>
              isShiftName (lower (getOpcodeName BC (opcode I2))) \<and> k1 = k2 \<and>
              \<bar>sint a - sint b\<bar> \<le> 1) \<or>
             (\<bar>sint a\<bar> \<le> 15 \<and> \<bar>sint b\<bar> \<le> 15 \<and> \<bar>sint a - sint b\<bar> \<le> 1)))"
proof -
  have c: "areImmediatesCompatible BC I1 I2 k1 k2 = immsCompatible BC I1 I2 k1 k2 a b"
    using assms(1-4) by (simp add: areImmediatesCompatible_def)
  have s: "(mayAccessMemory BC I1 \<and> mayAccessMemory BC I2 \<and> usesSPorFP BC I1) =
           stackAddressed BC I1"
    using assms(5) by (auto simp: stackAddressed_def)
  have d: "sint (a - b) = sint a - sint b" using assms(8,9) by (intro sint_diff_exact) simp_all
  have x: "sint (std_abs (a - b)) = \<bar>sint a - sint b\<bar>"
    using std_abs_sint [of "a - b"] assms(8) unfolding d by simp
  have y: "sint (std_abs a) = \<bar>sint a\<bar>" "sint (std_abs b) = \<bar>sint b\<bar>"
    using assms(6,7) by (simp_all add: std_abs_sint)
  show ?thesis unfolding c immsCompatible_def s x y by auto
qed


subsection \<open>Stack-displacement fixup\<close>

lemma fixLoadStoreOps_none:
  "\<not> hasSPImm SP ops \<Longrightarrow> fixLoadStoreOps SP adj ops = (ops, False)"
  by (induction SP adj ops rule: fixLoadStoreOps.induct) auto

lemma fixLoadStoreOps_first:
  "\<not> hasSPImm SP (pre @ [Reg SP]) \<Longrightarrow>
   fixLoadStoreOps SP adj (pre @ Reg SP # Imm v # post) =
     (pre @ Reg SP # Imm (v + adj) # post, True)"
proof (induction pre)
  case Nil
  then show ?case by simp
next
  case (Cons p ps)
  show ?case
  proof (cases ps)
    case Nil
    with Cons show ?thesis by auto
  next
    case (Cons q qs)
    with Cons.prems Cons.IH show ?thesis by auto
  qed
qed

lemma fixFirstImm_none:
  "\<forall>x \<in> set ops. \<not> isImm x \<Longrightarrow> fixFirstImm adj ops = (ops, False)"
  by (induction adj ops rule: fixFirstImm.induct) auto

lemma fixFirstImm_first:
  "\<forall>x \<in> set mid. \<not> isImm x \<Longrightarrow>
   fixFirstImm adj (mid @ Imm v # post) = (mid @ Imm (v + adj) # post, True)"
proof (induction mid)
  case Nil
  then show ?case by simp
next
  case (Cons m ms)
  then show ?case by (cases m) auto
qed

lemma fixAddSubOps_noSP:
  "Reg SP \<notin> set ops \<Longrightarrow> fixAddSubOps SP adj ops = (ops, False)"
  by (induction ops) auto

lemma fixAddSubOps_first:
  "Reg SP \<notin> set pre \<Longrightarrow> \<forall>x \<in> set mid. \<not> isImm x \<Longrightarrow>
   fixAddSubOps SP adj (pre @ Reg SP # mid @ Imm v # post) =
     (pre @ Reg SP # mid @ Imm (v + adj) # post, True)"
  by (induction pre) (auto simp: fixFirstImm_first)

lemma fixAddSubOps_noImm:
  "Reg SP \<notin> set pre \<Longrightarrow> \<forall>x \<in> set rest. \<not> isImm x \<Longrightarrow>
   fixAddSubOps SP adj (pre @ Reg SP # rest) = (pre @ Reg SP # rest, False)"
  by (induction pre) (auto simp: fixFirstImm_none)

lemma starts_with_take: "starts_with s p \<longleftrightarrow> take (length p) s = p"
  by (induction s p rule: starts_with.induct) auto

lemma getInstructionScale_range: "getInstructionScale BC I \<in> {1, 2, 4, 8, 16}"
  by (simp add: getInstructionScale_def Let_def)

lemma isAddSub_scale: "isAddSub BC I \<Longrightarrow> getInstructionScale BC I = 1"
  by (auto simp: isAddSub_def getInstructionScale_def Let_def starts_with_take)

subsection \<open>Tail calls in the synthesizer\<close>

lemma purityScanInsts_call:
  "purityScanInsts BC Is (n, u, h) = (n', u', h') \<Longrightarrow>
   n \<or> h \<or> list_ex (MIB_isCall BC) Is \<Longrightarrow> n' \<or> h'"
proof (induction Is arbitrary: n u h)
  case Nil
  then show ?case by simp
next
  case (Cons I Is)
  show ?case
  proof (cases "isCondBranch BC I")
    case True
    with Cons.prems show ?thesis by simp
  next
    case False
    let ?n = "n \<or> MIB_isCall BC I" and ?u = "u \<or> usesFPAsSource BC I"
    show ?thesis
    proof (cases "h \<or> (?n \<and> ?u)")
      case True
      with False Cons.prems show ?thesis by (auto simp: Let_def)
    next
      case b: False
      with False Cons.prems(1)
      have "purityScanInsts BC Is (?n, ?u, h) = (n', u', h')" by (simp add: Let_def)
      moreover from Cons.prems(2) have "?n \<or> h \<or> list_ex (MIB_isCall BC) Is" by auto
      ultimately show ?thesis by (rule Cons.IH)
    qed
  qed
qed

lemma purityScanBlocks_mono:
  "purityScanBlocks BC bs (n, u, h) = (n', u', h') \<Longrightarrow> n \<or> h \<Longrightarrow> n' \<or> h'"
proof (induction bs arbitrary: n u h)
  case Nil
  then show ?case by simp
next
  case (Cons b bs)
  obtain n1 u1 h1 where s: "purityScanInsts BC (insts b) (n, u, h) = (n1, u1, h1)"
    by (cases "purityScanInsts BC (insts b) (n, u, h)") auto
  from purityScanInsts_call [OF s] Cons.prems(2) have nh: "n1 \<or> h1" by blast
  show ?case
  proof (cases "h1 \<or> (n1 \<and> u1)")
    case True
    with s Cons.prems(1) nh show ?thesis by auto
  next
    case False
    with s Cons.prems(1) have "purityScanBlocks BC bs (n1, u1, h1) = (n', u', h')" by simp
    from Cons.IH [OF this nh] show ?thesis .
  qed
qed

lemma purityScanBlocks_call:
  assumes "purityScanBlocks BC (b # bs) (False, False, False) = (n', u', h')"
    and "list_ex (MIB_isCall BC) (insts b)"
  shows "n' \<or> h'"
proof -
  obtain n1 u1 h1 where s: "purityScanInsts BC (insts b) (False, False, False) = (n1, u1, h1)"
    by (cases "purityScanInsts BC (insts b) (False, False, False)") auto
  from purityScanInsts_call [OF s] assms(2) have nh: "n1 \<or> h1" by blast
  show ?thesis
  proof (cases "h1 \<or> (n1 \<and> u1)")
    case True
    with s assms(1) nh show ?thesis by auto
  next
    case False
    with s assms(1) have "purityScanBlocks BC bs (n1, u1, h1) = (n', u', h')" by simp
    from purityScanBlocks_mono [OF this nh] show ?thesis .
  qed
qed

lemma not_pure_with_call:
  assumes "list_ex (MIB_isCall BC) (insts b)"
  shows "\<not> isPureFunction BC fo orig (b # bs)"
proof -
  obtain n' u' h' where s: "purityScanBlocks BC (b # bs) (False, False, False) = (n', u', h')"
    by (cases "purityScanBlocks BC (b # bs) (False, False, False)") auto
  from purityScanBlocks_call [OF s assms] have "n' \<or> h'" .
  with s show ?thesis by (auto simp: isPureFunction_def)
qed

lemma insertBeforeReturn_keeps_last:
  "MIB_isReturn BC r \<Longrightarrow> insertBeforeReturn BC E (xs @ [r]) \<noteq> [] \<and>
     last (insertBeforeReturn BC E (xs @ [r])) = r \<and>
     length (insertBeforeReturn BC E (xs @ [r])) = Suc (Suc (length xs))"
  by (induction xs) auto

lemma insertBeforeReturn_no_earlier:
  "MIB_isReturn BC r \<Longrightarrow> \<not> list_ex (MIB_isReturn BC) xs \<Longrightarrow>
   insertBeforeReturn BC E (xs @ [r]) = xs @ [E, r]"
  by (induction xs) auto

lemma tailCall_direct:
  assumes "MIB_isCall BC c" "MIB_isReturn BC r" "\<not> MIB_isIndirectCall BC c"
    "findTargetSymbol BC (operands c) = Some t"
  shows "tailCallOptimize BC (xs @ [c, r]) = (xs @ [createUncondBranch BC t], True)"
  using assms by (simp add: tailCallOptimize_def nth_append)

lemma tailCall_nosymbol:
  assumes "MIB_isCall BC c" "MIB_isReturn BC r" "\<not> MIB_isIndirectCall BC c"
    "findTargetSymbol BC (operands c) = None"
  shows "tailCallOptimize BC (xs @ [c, r]) = (xs @ [c], True)"
  using assms by (simp add: tailCallOptimize_def nth_append)

lemma tailCall_indirect:
  assumes "MIB_isCall BC c" "MIB_isReturn BC r" "MIB_isIndirectCall BC c"
  shows "tailCallOptimize BC (xs @ [c, r]) = (xs @ [c, r], False)"
  using assms by (simp add: tailCallOptimize_def nth_append)


text \<open>
  Claim C8, as the source has it. On AArch64, when the entry block of the synthesized
  function (after the displacement fixup) ends in a call followed by a return: a direct
  call whose target symbol \<open>t\<close> is found among its operands becomes an unconditional
  branch to \<open>t\<close>, the return is dropped and no epilogue is emitted; a direct call with
  no target symbol stays, and the return is dropped. After an indirect
  call nothing is rewritten: the return stays the last instruction and the epilogue is
  inserted before the first return of the block.
\<close>

theorem C8_tail_call:
  assumes "isAArch64 BC" and "blocks F = First # others"
    and "insts (fixBlock BC (ByteFixOffset s) First) = body @ [c, r]"
    and "MIB_isCall BC c" and "MIB_isReturn BC r"
  shows "(\<not> MIB_isIndirectCall BC c \<and> findTargetSymbol BC (operands c) = Some t \<longrightarrow>
            insts (hd (blocks (stackFrameManage BC F s))) =
              createPushRegisters BC (getFramePointer BC) (getLinkRegister BC) # body @
              [createUncondBranch BC t]) \<and>
         (\<not> MIB_isIndirectCall BC c \<and> findTargetSymbol BC (operands c) = None \<longrightarrow>
            insts (hd (blocks (stackFrameManage BC F s))) =
              createPushRegisters BC (getFramePointer BC) (getLinkRegister BC) # body @ [c]) \<and>
         (MIB_isIndirectCall BC c \<longrightarrow>
            insts (hd (blocks (stackFrameManage BC F s))) =
              insertBeforeReturn BC (createPopRegisters BC (getFramePointer BC) (getLinkRegister BC))
                (createPushRegisters BC (getFramePointer BC) (getLinkRegister BC) # body @ [c, r]) \<and>
            last (insts (hd (blocks (stackFrameManage BC F s)))) = r \<and>
            length (insts (hd (blocks (stackFrameManage BC F s)))) = length body + 4) \<and>
         (MIB_isIndirectCall BC c \<and>
          \<not> list_ex (MIB_isReturn BC)
              (createPushRegisters BC (getFramePointer BC) (getLinkRegister BC) # body @ [c]) \<longrightarrow>
            insts (hd (blocks (stackFrameManage BC F s))) =
              createPushRegisters BC (getFramePointer BC) (getLinkRegister BC) # body @
              [c, createPopRegisters BC (getFramePointer BC) (getLinkRegister BC), r])"
proof -
  let ?P = "createPushRegisters BC (getFramePointer BC) (getLinkRegister BC)"
  let ?E = "createPopRegisters BC (getFramePointer BC) (getLinkRegister BC)"
  let ?fo = "ByteFixOffset s"
  let ?fixed = "map (fixBlock BC ?fo) (blocks F)"
  have hdf: "?fixed = fixBlock BC ?fo First # map (fixBlock BC ?fo) others"
    using assms(2) by simp
  have "length (insts (fixBlock BC ?fo First)) = length (insts First)"
    by (simp add: fixBlock_def)
  then have "length (insts First) = length (body @ [c, r])"
    by (simp only: assms(3))
  then have ne: "insts First \<noteq> []" by auto
  have ex: "list_ex (\<lambda>BB. insts BB \<noteq> []) (blocks F)" using assms(2) ne by simp
  have call: "list_ex (MIB_isCall BC) (insts (fixBlock BC ?fo First))"
    using assms(3,4) by simp
  have np: "\<not> isPureFunction BC ?fo (blocks F) ?fixed"
    unfolding hdf by (rule not_pure_with_call [OF call])
  have sfm: "stackFrameManage BC F s =
      (case tailCallOptimize BC (?P # body @ [c, r]) of
         (Is, tailCallOptimized) \<Rightarrow>
           if tailCallOptimized
           then F\<lparr>blocks := (fixBlock BC ?fo First)\<lparr>insts := Is\<rparr> #
                  map (fixBlock BC ?fo) others\<rparr>
           else F\<lparr>blocks := (fixBlock BC ?fo First)\<lparr>insts := insertBeforeReturn BC ?E Is\<rparr> #
                  map (fixBlock BC ?fo) others\<rparr>)"
    using assms(1,2) ne ex np assms(3)
    by (simp add: stackFrameManage_def Let_def split: prod.split)
  have d: "\<not> MIB_isIndirectCall BC c \<Longrightarrow> findTargetSymbol BC (operands c) = Some t \<Longrightarrow>
      insts (hd (blocks (stackFrameManage BC F s))) = ?P # body @ [createUncondBranch BC t]"
    using tailCall_direct [OF assms(4,5), of t "?P # body"] by (simp add: sfm)
  have n: "\<not> MIB_isIndirectCall BC c \<Longrightarrow> findTargetSymbol BC (operands c) = None \<Longrightarrow>
      insts (hd (blocks (stackFrameManage BC F s))) = ?P # body @ [c]"
    using tailCall_nosymbol [OF assms(4,5), of "?P # body"] by (simp add: sfm)
  have i: "MIB_isIndirectCall BC c \<Longrightarrow>
      insts (hd (blocks (stackFrameManage BC F s))) = insertBeforeReturn BC ?E (?P # body @ [c, r])"
    using tailCall_indirect [OF assms(4,5), of "?P # body"] by (simp add: sfm)
  have k: "last (insertBeforeReturn BC ?E (?P # body @ [c, r])) = r \<and>
           length (insertBeforeReturn BC ?E (?P # body @ [c, r])) = length body + 4"
    using insertBeforeReturn_keeps_last [OF assms(5), of ?E "?P # body @ [c]"] by simp
  have j: "\<not> list_ex (MIB_isReturn BC) (?P # body @ [c]) \<Longrightarrow>
           insertBeforeReturn BC ?E (?P # body @ [c, r]) = ?P # body @ [c, ?E, r]"
    using insertBeforeReturn_no_earlier [OF assms(5), of "?P # body @ [c]" ?E] by simp
  show ?thesis using d n i k j by metis
qed

text \<open>C8 at the body \<^verbatim>\<open>mov x0, #1; bl foo; ret\<close>: it becomes
  \<^verbatim>\<open>stp x29, x30, [sp, #-16]!; mov x0, #1; b foo\<close>.\<close>

theorem C8_tail_call_witness:
  "isAArch64 demoHost \<and> blocks (mkOutlined directBody) = mkBlock directBody # [] \<and>
   insts (fixBlock demoHost (ByteFixOffset False) (mkBlock directBody)) =
     [mkInst 1 [Reg 0, Imm 1]] @ [mkInst 5 [Expr 1], mkInst 6 []] \<and>
   MIB_isCall demoHost (mkInst 5 [Expr 1]) \<and> MIB_isReturn demoHost (mkInst 6 []) \<and>
   \<not> MIB_isIndirectCall demoHost (mkInst 5 [Expr 1]) \<and>
   findTargetSymbol demoHost (operands (mkInst 5 [Expr 1])) = Some ''foo'' \<and>
   insts (hd (blocks (stackFrameManage demoHost (mkOutlined directBody) False))) =
     createPushRegisters demoHost (getFramePointer demoHost) (getLinkRegister demoHost) #
     [mkInst 1 [Reg 0, Imm 1]] @ [createUncondBranch demoHost ''foo'']"
proof -
  have a: "isAArch64 demoHost" by code_simp
  have b: "blocks (mkOutlined directBody) = mkBlock directBody # []"
    by (simp add: mkOutlined_def)
  have c: "insts (fixBlock demoHost (ByteFixOffset False) (mkBlock directBody)) =
     [mkInst 1 [Reg 0, Imm 1]] @ [mkInst 5 [Expr 1], mkInst 6 []]" by code_simp
  have d: "MIB_isCall demoHost (mkInst 5 [Expr 1])" by code_simp
  have e: "MIB_isReturn demoHost (mkInst 6 [])" by code_simp
  have f: "\<not> MIB_isIndirectCall demoHost (mkInst 5 [Expr 1])" by code_simp
  have g: "findTargetSymbol demoHost (operands (mkInst 5 [Expr 1])) = Some ''foo''"
    by code_simp
  from C8_tail_call [OF a b c d e, of "''foo''"] f g
  have "insts (hd (blocks (stackFrameManage demoHost (mkOutlined directBody) False))) =
     createPushRegisters demoHost (getFramePointer demoHost) (getLinkRegister demoHost) #
     [mkInst 1 [Reg 0, Imm 1]] @ [createUncondBranch demoHost ''foo'']" by blast
  with a b c d e f g show ?thesis by blast
qed

text \<open>
  The claim as written says that after an indirect call the return is dropped. For the
  body \<^verbatim>\<open>ldr x0, [sp, #8]; blr x8; ret\<close> the synthesizer produces prologue, load, call,
  epilogue and the return.
\<close>

theorem C8_counterexample:
  "MIB_isIndirectCall demoHost (mkInst 11 [Reg 8]) \<and>
   insts (hd (blocks (stackFrameManage demoHost (mkOutlined indirectBody) False))) =
     [mkInst 9 [Reg 31, Reg 29, Reg 30, Reg 31, Imm (- 2)], mkInst 3 [Reg 0, Reg 31, Imm 3],
      mkInst 11 [Reg 8], mkInst 10 [Reg 31, Reg 29, Reg 30, Reg 31, Imm 2], mkInst 6 []]"
  by code_simp

subsection \<open>The displacement fixup, instruction by instruction\<close>

lemma fixInst_spec:
  "(isLoadStore BC I \<and> operands I = pre @ Reg (getStackPointer BC) # Imm v # post \<and>
      \<not> hasSPImm (getStackPointer BC) (pre @ [Reg (getStackPointer BC)]) \<longrightarrow>
      fixInst BC fo I =
        (I\<lparr>operands := pre @ Reg (getStackPointer BC) #
             Imm (v + word_of_nat (fo div getInstructionScale BC I)) # post\<rparr>, True)) \<and>
   (isLoadStore BC I \<and> \<not> hasSPImm (getStackPointer BC) (operands I) \<longrightarrow>
      fixInst BC fo I = (I, False)) \<and>
   (\<not> isLoadStore BC I \<and> isAddSub BC I \<and>
      operands I = pre @ Reg (getStackPointer BC) # mid @ Imm v # post \<and>
      Reg (getStackPointer BC) \<notin> set pre \<and> (\<forall>x \<in> set mid. \<not> isImm x) \<longrightarrow>
      fixInst BC fo I =
        (I\<lparr>operands := pre @ Reg (getStackPointer BC) # mid @
             Imm (v + word_of_nat (fo div getInstructionScale BC I)) # post\<rparr>, True)) \<and>
   (\<not> isLoadStore BC I \<and> \<not> isAddSub BC I \<longrightarrow> fixInst BC fo I = (I, False))"
  by (auto simp: fixInst_def Let_def fixLoadStoreOps_first fixLoadStoreOps_none
       fixAddSubOps_first isAddSub_scale)

text \<open>
  Claim C4 at \<^verbatim>\<open>add x0, sp, #16\<close> (opcode \<^verbatim>\<open>ADDXri\<close>), an add against SP that does not
  define SP. The fixup recognises an add or sub by the letters \<^verbatim>\<open>sp\<close> in the opcode
  name, which \<^verbatim>\<open>ADDXri\<close> does not have: the immediate stays 16 for both values of
  \<open>byte_fix\<close>, where the claim has 32 and 48. The load \<^verbatim>\<open>ldr x0, [sp, #8]\<close>
  (\<^verbatim>\<open>LDRXui\<close>, scale 8, immediate 1) is adjusted to immediate 3 and 5.
\<close>

theorem C4_add_against_sp_unadjusted:
  "\<not> isLoadStore demoHost (mkInst 13 [Reg 0, Reg 31, Imm 16, Imm 0]) \<and>
   namesReg (getStackPointer demoHost) (mkInst 13 [Reg 0, Reg 31, Imm 16, Imm 0]) \<and>
   getInstructionScale demoHost (mkInst 13 [Reg 0, Reg 31, Imm 16, Imm 0]) = 1 \<and>
   fixInst demoHost (ByteFixOffset False) (mkInst 13 [Reg 0, Reg 31, Imm 16, Imm 0]) =
     (mkInst 13 [Reg 0, Reg 31, Imm 16, Imm 0], False) \<and>
   fixInst demoHost (ByteFixOffset True) (mkInst 13 [Reg 0, Reg 31, Imm 16, Imm 0]) =
     (mkInst 13 [Reg 0, Reg 31, Imm 16, Imm 0], False) \<and>
   fixInst demoHost (ByteFixOffset False) (mkInst 3 [Reg 0, Reg 31, Imm 1]) =
     (mkInst 3 [Reg 0, Reg 31, Imm 3], True) \<and>
   fixInst demoHost (ByteFixOffset True) (mkInst 3 [Reg 0, Reg 31, Imm 1]) =
     (mkInst 3 [Reg 0, Reg 31, Imm 5], True)"
  by code_simp

subsection \<open>The cost model\<close>

lemma sint_cint_small:
  "- (2 ^ 31) \<le> x \<Longrightarrow> x < 2 ^ 31 \<Longrightarrow> sint (word_of_int x :: cint) = x"
  by (simp add: sint_sbintrunc' signed_take_bit_int_eq_self)

lemma costModel_words:
  "outlinedFuncSize (costModel L pure (word_of_nat s) (word_of_nat c) F n) =
     word_of_int (if pure then 4 * L + 4 else 4 * L + 12)"
  "totalCallCost (costModel L pure (word_of_nat s) (word_of_nat c) F n) =
     word_of_int (12 * int s + 4 * int c)"
  "savedBytes (costModel L pure (word_of_nat s) (word_of_nat c) F n) =
     word_of_int (4 * L * uint F)"
  "costBytes (costModel L pure (word_of_nat s) (word_of_nat c) F n) =
     word_of_int ((if pure then 4 * L + 4 else 4 * L + 12) + (12 * int s + 4 * int c))"
  "netBenefit (costModel L pure (word_of_nat s) (word_of_nat c) F n) =
     word_of_int (4 * L * uint F -
       ((if pure then 4 * L + 4 else 4 * L + 12) + (12 * int s + 4 * int c)))"
  by (simp_all add: costModel_def Let_def castToInt_def)

lemma threshold_values:
  "MinBenefitThreshold (costModel L pure sc nc F n) =
     (if pure then
        (if F div (if n > 0 then word_of_nat n else 1) \<ge> 3 \<or> n \<ge> 3 then - 4
         else if F div (if n > 0 then word_of_nat n else 1) \<ge> 2 \<or> n \<ge> 2 then 0
         else 4)
      else 0)"
  by (simp add: costModel_def Let_def)

text \<open>The saved bytes are \<open>4 \<sqdot> L \<sqdot> F\<close> reduced to 32 bits in two's complement.\<close>

lemma savedBytes_wraps:
  "sint (savedBytes (costModel L pure (word_of_nat s) (word_of_nat c) F n)) =
     signed_take_bit 31 (4 * L * uint F)"
  by (simp only: costModel_words sint_sbintrunc') simp

text \<open>
  As long as \<open>4 \<sqdot> L \<sqdot> F\<close> and the cost stay below \<open>2^31\<close>, the numbers of the cost model
  are the ones the specification gives, for \<open>s\<close> sandwich occurrences and \<open>c\<close> bare
  calls.
\<close>

lemma costModel_in_range:
  assumes "0 \<le> L" and "4 * L * uint F < 2 ^ 31"
    and "4 * L + 12 + (12 * int s + 4 * int c) < 2 ^ 31"
  shows "sint (outlinedFuncSize (costModel L pure (word_of_nat s) (word_of_nat c) F n)) =
           (if pure then 4 * L + 4 else 4 * L + 12)"
    and "sint (savedBytes (costModel L pure (word_of_nat s) (word_of_nat c) F n)) =
           4 * L * uint F"
    and "sint (costBytes (costModel L pure (word_of_nat s) (word_of_nat c) F n)) =
           (if pure then 4 * L + 4 else 4 * L + 12) + (12 * int s + 4 * int c)"
    and "sint (MinBenefitThreshold (costModel L pure (word_of_nat s) (word_of_nat c) F n)) =
           (if pure then
              (if F div (if n > 0 then word_of_nat n else 1) \<ge> 3 \<or> n \<ge> 3 then - 4
               else if F div (if n > 0 then word_of_nat n else 1) \<ge> 2 \<or> n \<ge> 2 then 0
               else 4)
            else 0)"
    and "admitted (costModel L pure (word_of_nat s) (word_of_nat c) F n) \<longleftrightarrow>
           4 * L * uint F -
             ((if pure then 4 * L + 4 else 4 * L + 12) + (12 * int s + 4 * int c)) >
           (if pure then
              (if F div (if n > 0 then word_of_nat n else 1) \<ge> 3 \<or> n \<ge> 3 then - 4
               else if F div (if n > 0 then word_of_nat n else 1) \<ge> 2 \<or> n \<ge> 2 then 0
               else 4)
            else 0)"
proof -
  let ?d = "costModel L pure (word_of_nat s) (word_of_nat c) F n"
  let ?size = "if pure then 4 * L + 4 else 4 * L + 12"
  let ?call = "12 * int s + 4 * int c"
  let ?T = "(if pure then
              (if F div (if n > 0 then word_of_nat n else 1) \<ge> 3 \<or> n \<ge> 3 then - 4
               else if F div (if n > 0 then word_of_nat n else 1) \<ge> 2 \<or> n \<ge> 2 then 0
               else 4)
            else 0) :: int"
  have p: "(2 :: int) ^ 31 = 2147483648" by simp
  have u: "0 \<le> uint F" by simp
  have sv0: "0 \<le> 4 * L * uint F" using assms(1) u by simp
  have sz: "0 \<le> ?size" "?size < 2 ^ 31" using assms(1,3) by (auto simp: p)
  have cs: "0 \<le> ?size + ?call" "?size + ?call < 2 ^ 31" using assms(1,3) by (auto simp: p)
  have nb: "- (2 ^ 31) \<le> 4 * L * uint F - (?size + ?call)"
    "4 * L * uint F - (?size + ?call) < 2 ^ 31"
    using sv0 cs assms(2) unfolding p by linarith+
  show a: "sint (outlinedFuncSize ?d) = ?size"
    unfolding costModel_words using sz by (intro sint_cint_small) (simp_all add: p)
  show b: "sint (savedBytes ?d) = 4 * L * uint F"
    unfolding costModel_words using sv0 assms(2) by (intro sint_cint_small) (simp_all add: p)
  show c: "sint (costBytes ?d) = ?size + ?call"
    unfolding costModel_words using cs by (intro sint_cint_small) (simp_all add: p)
  have t: "MinBenefitThreshold ?d = word_of_int ?T"
    unfolding threshold_values by simp
  show t': "sint (MinBenefitThreshold ?d) = ?T"
    unfolding t by (intro sint_cint_small) (simp_all add: p)
  have n': "sint (netBenefit ?d) = 4 * L * uint F - (?size + ?call)"
    unfolding costModel_words using nb by (intro sint_cint_small) (simp_all add: p)
  show "admitted ?d \<longleftrightarrow> 4 * L * uint F - (?size + ?call) > ?T"
    unfolding admitted_def n' t' by simp
qed

text \<open>
  Claim C1 at a weighted frequency of \<open>2^32\<close>: the window occurs in a block executed
  once and in a block executed 4294967295 times, with profile filtering on. The cast
  \<^verbatim>\<open>static_cast<int>(weightedFrequency)\<close> yields 0, the computed savings are 0 and the
  candidate is not outlined, although \<open>4 \<sqdot> L \<sqdot> F\<close> less the cost of 20 bytes is far above
  the threshold of \<open>-4\<close>. The product wraps as well: at \<open>L = 2\<close> and \<open>F = 2^29\<close> the savings
  are 0 again, while at \<open>F = 2^28 - 1\<close> they are the \<open>4 \<sqdot> L \<sqdot> F = 2147483640\<close> of the claim.
\<close>

theorem C1_frequency_truncated:
  "findSequenceLocations demoHost busyFunction demoWindow = [(0, 1), (1, 0)] \<and>
   sint (savedBytes (decide demoHost True busyFunction 2 demoWindow [(0, 1), (1, 0)])) = 0 \<and>
   sint (costBytes (decide demoHost True busyFunction 2 demoWindow [(0, 1), (1, 0)])) = 20 \<and>
   sint (MinBenefitThreshold (decide demoHost True busyFunction 2 demoWindow [(0, 1), (1, 0)])) =
     - 4 \<and>
   \<not> admitted (decide demoHost True busyFunction 2 demoWindow [(0, 1), (1, 0)]) \<and>
   (4 * 2 * (1 + 4294967295) - 20 > (- 4 :: int)) \<and>
   (case runOnFunctions demoHost pgoConfig (demoProgram\<lparr>binaryFunctions := [busyFunction]\<rparr>) of
      Inl e \<Rightarrow> False
    | Inr st \<Rightarrow> injected st = []) \<and>
   sint (savedBytes (costModel 2 True 0 2 536870912 2)) = 0 \<and>
   \<not> admitted (costModel 2 True 0 2 536870912 2) \<and>
   sint (savedBytes (costModel 2 True 0 2 268435455 2)) = 2147483640 \<and>
   admitted (costModel 2 True 0 2 268435455 2)"
  by code_simp

subsection \<open>Trampoline choice\<close>

lemma eraseLoop_eq: "eraseLoop n idx xs = take idx xs @ drop (idx + n) xs"
proof (induction n arbitrary: xs)
  case 0
  then show ?case by simp
next
  case (Suc n)
  show ?case
  proof (cases "idx < length xs")
    case True
    then show ?thesis by (simp add: Suc min_def add.commute)
  next
    case False
    then show ?thesis by (simp add: Suc)
  qed
qed

lemma firstReturn_take:
  "list_ex (MIA_isReturn BC) (take S Is) \<Longrightarrow> \<exists>ri. firstReturn BC Is i0 = Some ri \<and> ri < i0 + S"
proof (induction Is arbitrary: S i0)
  case Nil
  then show ?case by simp
next
  case (Cons I Is)
  show ?case
  proof (cases S)
    case 0
    with Cons.prems show ?thesis by simp
  next
    case (Suc S')
    show ?thesis
    proof (cases "MIA_isReturn BC I")
      case True
      with Suc show ?thesis by simp
    next
      case False
      with Cons.prems Suc have "list_ex (MIA_isReturn BC) (take S' Is)" by simp
      from Cons.IH [OF this, of "Suc i0"] False Suc show ?thesis by auto
    qed
  qed
qed

lemma retScan_unsafe:
  "k \<le> bb \<Longrightarrow> bb < k + length bs \<Longrightarrow>
   list_ex (\<lambda>j. list_ex (MIA_isReturn BC) (insts (bs ! (j - k)))) [k ..< bb] \<or>
   list_ex (MIA_isReturn BC) (take S (insts (bs ! (bb - k)))) \<Longrightarrow>
   \<not> retScan BC bs k bb S False"
proof (induction bs arbitrary: k)
  case Nil
  then show ?case by simp
next
  case (Cons B bs)
  show ?case
  proof (cases "k = bb")
    case True
    with Cons.prems(3) have r: "list_ex (MIA_isReturn BC) (take S (insts B))" by simp
    then have h: "list_ex (MIA_isReturn BC) (insts B)"
      by (auto simp: list_ex_iff dest: in_set_takeD)
    from firstReturn_take [OF r, of 0] obtain ri where
      "firstReturn BC (insts B) 0 = Some ri" "ri < S" by auto
    with True h show ?thesis by simp
  next
    case False
    with Cons.prems(1) have lt: "k < bb" by simp
    show ?thesis
    proof (cases "list_ex (MIA_isReturn BC) (insts B)")
      case True
      with False show ?thesis by simp
    next
      case nr: False
      have a: "Suc k \<le> bb" using lt by simp
      have b: "bb < Suc k + length bs" using Cons.prems(2) by simp
      have up: "[k ..< bb] = k # [Suc k ..< bb]" using lt by (simp add: upt_conv_Cons)
      have c: "list_ex (\<lambda>j. list_ex (MIA_isReturn BC) (insts (bs ! (j - Suc k)))) [Suc k ..< bb] \<or>
               list_ex (MIA_isReturn BC) (take S (insts (bs ! (bb - Suc k))))"
      proof -
        from Cons.prems(3) consider
          (x) "list_ex (\<lambda>j. list_ex (MIA_isReturn BC) (insts ((B # bs) ! (j - k)))) [k ..< bb]"
          | (y) "list_ex (MIA_isReturn BC) (take S (insts ((B # bs) ! (bb - k))))" by blast
        then show ?thesis
        proof cases
          case x
          then have "\<exists>j \<in> set [k ..< bb].
              list_ex (MIA_isReturn BC) (insts ((B # bs) ! (j - k)))"
            by (simp only: list_ex_iff)
          then obtain j where j: "j \<in> set [k ..< bb]"
            "list_ex (MIA_isReturn BC) (insts ((B # bs) ! (j - k)))"
            by blast
          with nr have "j \<noteq> k" by auto
          with j(1) have jk: "Suc k \<le> j" "j < bb" by auto
          then have "(B # bs) ! (j - k) = bs ! (j - Suc k)"
            by (metis Suc_diff_le diff_Suc_Suc nth_Cons_Suc)
          with j(2) jk show ?thesis by (auto simp: list_ex_iff)
        next
          case y
          have "(B # bs) ! (bb - k) = bs ! (bb - Suc k)"
            using lt by (metis Suc_diff_le diff_Suc_Suc nth_Cons_Suc a)
          with y show ?thesis by simp
        qed
      qed
      from Cons.IH [OF a b c] nr False show ?thesis by simp
    qed
  qed
qed

lemma afterReturn_unsafe:
  assumes "bb < length (blocks BF)" "afterReturn BC BF bb S"
  shows "\<not> isLRSavedAtPoint BC BF bb S"
proof -
  have "\<not> retScan BC (blocks BF) 0 bb S False"
    using retScan_unsafe [of 0 bb "blocks BF" BC S] assms by (simp add: afterReturn_def)
  then show ?thesis by (simp add: isLRSavedAtPoint_def)
qed

lemma replace_single:
  assumes "isAArch64 BC" "bb < length (blocks BF)" "0 < SeqLen"
    "S + SeqLen \<le> length (insts (blocks BF ! bb))"
  shows "insts (blocks (replaceSequenceWithCall BC BF (bb, S) SeqLen lbl) ! bb) =
    (if IsCallerLeaf BC BF bb S
     then take S (insts (blocks BF ! bb)) @
          [createPushRegisters BC (getFramePointer BC) (getLinkRegister BC), createCall BC lbl,
           createPopRegisters BC (getFramePointer BC) (getLinkRegister BC)] @
          drop (S + SeqLen) (insts (blocks BF ! bb))
     else take S (insts (blocks BF ! bb)) @ [createCall BC lbl] @
          drop (S + SeqLen) (insts (blocks BF ! bb)))"
proof -
  let ?Is = "insts (blocks BF ! bb)"
  have s: "S < length ?Is" using assms(3,4) by simp
  have up: "?Is[S := createCall BC lbl] = take S ?Is @ createCall BC lbl # drop (Suc S) ?Is"
    using s by (simp add: upd_conv_take_nth_drop)
  obtain m where m: "SeqLen = Suc m" using assms(3) by (cases SeqLen) auto
  show ?thesis
    using assms s unfolding m
    by (auto simp: replaceSequenceWithCall_def Let_def setInsts_def eraseLoop_eq sandwichAt_def
        up min_def drop_Cons' add.commute)
qed


text \<open>
  One call of \<^verbatim>\<open>replaceSequenceWithCall\<close>, on the function as it stands when the call is
  made. It uses the sandwich exactly when that function is a real leaf (it holds no
  call, and is not an injected function) or LR is not known to be saved at the
  occurrence. An occurrence that follows a return, in an earlier block or earlier in
  its own block, is unsafe and gets the sandwich. On AArch64 an occurrence inside one
  block is replaced by push, call, pop in the first case and by a single call
  otherwise.
\<close>

lemma trampoline_of_one_call:
  "(IsCallerLeaf BC BF bb S \<longleftrightarrow>
      (isLeafFunction BC BF \<and> \<not> isInjected BF) \<or> \<not> isLRSavedAtPoint BC BF bb S) \<and>
   (\<not> isInjected BF \<longrightarrow>
      (IsCallerLeaf BC BF bb S \<longleftrightarrow> isLeafFunction BC BF \<or> \<not> isLRSavedAtPoint BC BF bb S)) \<and>
   (isLeafFunction BC BF \<longleftrightarrow>
      (\<forall>BB \<in> set (blocks BF). \<forall>I \<in> set (insts BB). \<not> MIB_isCall BC I)) \<and>
   (bb < length (blocks BF) \<and> afterReturn BC BF bb S \<longrightarrow>
      \<not> isLRSavedAtPoint BC BF bb S \<and> IsCallerLeaf BC BF bb S) \<and>
   (isAArch64 BC \<and> bb < length (blocks BF) \<and> 0 < SeqLen \<and>
    S + SeqLen \<le> length (insts (blocks BF ! bb)) \<longrightarrow>
      insts (blocks (replaceSequenceWithCall BC BF (bb, S) SeqLen lbl) ! bb) =
        (if IsCallerLeaf BC BF bb S
         then take S (insts (blocks BF ! bb)) @
              [createPushRegisters BC (getFramePointer BC) (getLinkRegister BC),
               createCall BC lbl,
               createPopRegisters BC (getFramePointer BC) (getLinkRegister BC)] @
              drop (S + SeqLen) (insts (blocks BF ! bb))
         else take S (insts (blocks BF ! bb)) @ [createCall BC lbl] @
              drop (S + SeqLen) (insts (blocks BF ! bb))))"
proof -
  have a: "IsCallerLeaf BC BF bb S \<longleftrightarrow>
      (isLeafFunction BC BF \<and> \<not> isInjected BF) \<or> \<not> isLRSavedAtPoint BC BF bb S"
    by (simp add: IsCallerLeaf_def Let_def)
  have b: "isLeafFunction BC BF \<longleftrightarrow>
      (\<forall>BB \<in> set (blocks BF). \<forall>I \<in> set (insts BB). \<not> MIB_isCall BC I)"
    by (auto simp: isLeafFunction_def list_ex_iff)
  have c: "bb < length (blocks BF) \<and> afterReturn BC BF bb S \<longrightarrow>
      \<not> isLRSavedAtPoint BC BF bb S \<and> IsCallerLeaf BC BF bb S"
    using afterReturn_unsafe a by blast
  show ?thesis using a b c replace_single by blast
qed

text \<open>
  Claim C7 on a real leaf with two occurrences of a window of eight instructions, one
  in each block. Both occurrences are in a function that holds no call, and the cost
  model counts two sandwiches (24 bytes of call cost). The rewriter replaces the
  occurrences one after the other and decides each on the function as already
  rewritten: after the sandwich in the entry block the function holds a call, and the
  scan of the entry block finds the push of the sandwich, which names LR. The second
  occurrence gets a single call: block 1 becomes \<^verbatim>\<open>bl PLO_outlined_1; ret\<close> in a function
  that never saved LR.
\<close>

theorem C7_second_site_bare_call:
  "isLeafFunction demoHost leafFunction \<and> \<not> isInjected leafFunction \<and>
   findSequenceLocations demoHost leafFunction leafWindow = [(0, 0), (1, 0)] \<and>
   IsCallerLeaf demoHost leafFunction 0 0 \<and> IsCallerLeaf demoHost leafFunction 1 0 \<and>
   totalCallCost (decide demoHost False leafFunction 8 leafWindow [(0, 0), (1, 0)]) = 24 \<and>
   \<not> IsCallerLeaf demoHost
       (replaceSequenceWithCall demoHost leafFunction (0, 0) 8 ''PLO_outlined_1'') 1 0 \<and>
   (case runOnFunctions demoHost leafConfig (demoProgram\<lparr>binaryFunctions := [leafFunction]\<rparr>) of
      Inl e \<Rightarrow> False
    | Inr st \<Rightarrow>
        map fname (injected st) = [''PLO_outlined_1''] \<and>
        map (\<lambda>BF. map insts (blocks BF)) (binaryFunctions st) =
          [[[createPushRegisters demoHost (getFramePointer demoHost) (getLinkRegister demoHost),
             createCall demoHost ''PLO_outlined_1'',
             createPopRegisters demoHost (getFramePointer demoHost) (getLinkRegister demoHost)],
            [createCall demoHost ''PLO_outlined_1'', mkInst 6 []]]])"
  by code_simp

subsection \<open>The driver off AArch64 and on hot functions\<close>

text \<open>
  Claim C5 on a host that is not AArch64. The run over the program of one function
  returns success and rewrites no instruction, but it creates three injected
  functions: \<^verbatim>\<open>createFunction\<close> has no architecture test, unlike
  \<^verbatim>\<open>stackFrameManage\<close>, \<^verbatim>\<open>replaceSequenceWithCall\<close> and \<^verbatim>\<open>funcShrinking\<close>.
\<close>

theorem C5_injected_functions_off_aarch64:
  "\<not> isAArch64 otherHost \<and>
   (case runOnFunctions otherHost demoConfig demoProgram of
      Inl e \<Rightarrow> False
    | Inr st \<Rightarrow>
        map fname (injected st) = [''PLO_outlined_1'', ''PLO_outlined_2'', ''PLO_outlined_3''] \<and>
        binaryFunctions st = binaryFunctions demoProgram)"
  by code_simp

text \<open>
  Claim C6 on a function with a profile and an execution count of 100 whose only block
  was executed once. With profile filtering on, the function is in the precomputed hot
  set, and yet the driver extracts windows from it and outlines one of them: the set
  \<^verbatim>\<open>InHotFuncs\<close> is never read, only the count of each block is.
\<close>

theorem C6_hot_function_extracted:
  "EnablePGO pgoConfig \<and> isHotFunction hotFunction \<and>
   computeHotFuncs pgoConfig [hotFunction] = [0] \<and>
   length (getAllseqs demoHost pgoConfig hotFunction 2) = 8 \<and>
   (case runOnFunctions demoHost pgoConfig (demoProgram\<lparr>binaryFunctions := [hotFunction]\<rparr>) of
      Inl e \<Rightarrow> False
    | Inr st \<Rightarrow> InHotFuncs st = [0] \<and> map fname (injected st) = [''PLO_outlined_1''])"
  by code_simp

end
